theory Spec2Isabelle
  imports Complex_Main
begin

section \<open>Track smearing with binned covariance matrices (modules/IPCovSmearing.cc)\<close>

text \<open>
  A shallow embedding of the module \<^verbatim>\<open>IPCovSmearing\<close>. The doubles that the
  module reads are real numbers. The last block of a pass of \<^verbatim>\<open>Process\<close> divides
  by a number that can be zero and takes a logarithm of a number that need not
  be positive; its results are doubles that can be infinite or no number, and
  the model follows them instead of relying on the value HOL gives to such
  terms.
\<close>

subsection \<open>Fixed-size linear algebra\<close>

text \<open>
  Modelled from the spec: the types \<^verbatim>\<open>CovMatrix\<close> and \<^verbatim>\<open>TrackVector\<close>
  (modules/IPCovSmearing.h is not among the sources), a real 5x5 matrix and a
  5-vector. They are functions of the indices; only the indices below 5 are
  meaningful. Sums and products are those of Eigen's fixed-size types.
\<close>

type_synonym CovMatrix = "nat \<Rightarrow> nat \<Rightarrow> real"

type_synonym TrackVector = "nat \<Rightarrow> real"

definition sum5 :: "(nat \<Rightarrow> real) \<Rightarrow> real" where
  "sum5 f = f 0 + f 1 + f 2 + f 3 + f 4"

definition Identity :: CovMatrix where
  "Identity = (\<lambda>i j. if i = j then 1 else 0)"

definition set_entry :: "CovMatrix \<Rightarrow> nat \<Rightarrow> nat \<Rightarrow> real \<Rightarrow> CovMatrix" where
  "set_entry M i j v = (\<lambda>a b. if a = i \<and> b = j then v else M a b)"

definition mat_mul :: "CovMatrix \<Rightarrow> CovMatrix \<Rightarrow> CovMatrix" where
  "mat_mul A B = (\<lambda>i j. sum5 (\<lambda>k. A i k * B k j))"

definition mat_scale :: "CovMatrix \<Rightarrow> real \<Rightarrow> CovMatrix" where
  "mat_scale A c = (\<lambda>i j. A i j * c)"

definition mat_vec :: "CovMatrix \<Rightarrow> TrackVector \<Rightarrow> TrackVector" where
  "mat_vec A v = (\<lambda>i. sum5 (\<lambda>k. A i k * v k))"

definition vec_add :: "TrackVector \<Rightarrow> TrackVector \<Rightarrow> TrackVector" where
  "vec_add u v = (\<lambda>i. u i + v i)"

text \<open>
  Modelled from the spec: the enumeration \<^verbatim>\<open>TrackParam\<close> (its header is not among
  the sources). Rows and columns are ordered as (d0, z0, phi, theta, qoverp),
  which is also the order in which \<^verbatim>\<open>Process\<close> fills the parameter vector.
\<close>

definition D0 :: nat where "D0 = 0"
definition Z0 :: nat where "Z0 = 1"
definition PHI :: nat where "PHI = 2"
definition THETA :: nat where "THETA = 3"
definition QOVERP :: nat where "QOVERP = 4"

subsection \<open>The parametrisation file and the matrices read from it\<close>

text \<open>
  The ROOT file is a partial map from object names to symmetric matrices.
  \<^verbatim>\<open>name.Form("covmat_ptbin%.2i_etabin%.2i", ptbin, etabin)\<close> prints each index
  with at least two digits.
\<close>

type_synonym TFile = "string \<rightharpoonup> CovMatrix"

fun decimal :: "nat \<Rightarrow> string" where
  "decimal n =
     (if n < 10 then [char_of (48 + n)]
      else decimal (n div 10) @ [char_of (48 + n mod 10)])"

definition format_2i :: "int \<Rightarrow> string" where
  "format_2i n =
     (let ds = decimal (nat \<bar>n\<bar>);
          padded = replicate (2 - length ds) (CHR ''0'') @ ds
      in if n < 0 then CHR ''-'' # padded else padded)"

definition covmat_name :: "int \<Rightarrow> int \<Rightarrow> string" where
  "covmat_name ptbin etabin =
     ''covmat_ptbin'' @ format_2i ptbin @ ''_etabin'' @ format_2i etabin"

datatype error =
    runtime_error
  | invalid_argument
  | logic_error
  | out_of_range
  | assertion_failed
  | null_pointer
  | not_finite

definition convert_units_to_gev :: "CovMatrix \<Rightarrow> CovMatrix" where
  "convert_units_to_gev matrix =
     (let gev_from_mev = set_entry Identity 4 4 1000
      in mat_mul (mat_mul gev_from_mev matrix) gev_from_mev)"

definition do_low_pt_hack :: "CovMatrix \<Rightarrow> CovMatrix" where
  "do_low_pt_hack cov_matrix =
     (let unct_mul = 2;
          hack_matrix = fold (\<lambda>comp h. set_entry h comp comp unct_mul) [D0, Z0] Identity
      in mat_mul (mat_mul hack_matrix cov_matrix) hack_matrix)"

definition get_cov_matrix :: "TFile \<Rightarrow> int \<Rightarrow> int \<Rightarrow> error + CovMatrix" where
  "get_cov_matrix file ptbin0 etabin =
     (let lowpt_hack = (ptbin0 = -1);
          ptbin = (if ptbin0 = -1 then 0 else ptbin0)
      in case file (covmat_name ptbin etabin) of
           None \<Rightarrow> Inl invalid_argument
         | Some cptr \<Rightarrow>
             (let covariance = (\<lambda>iii jjj. if iii < 5 \<and> jjj < 5 then cptr iii jjj else 0);
                  converted = convert_units_to_gev covariance
              in Inr (if lowpt_hack then do_low_pt_hack converted else converted)))"

subsection \<open>The module's state\<close>

text \<open>
  \<^verbatim>\<open>cov.llt()\<close> is Eigen's Cholesky factorisation, a library routine outside the
  repository. It always yields an object holding a matrix and a status;
  \<^verbatim>\<open>matrixL()\<close> is the lower triangular view of that matrix, whatever the status.
  \<^verbatim>\<open>Init\<close> takes the routine as a parameter.
\<close>

datatype ComputationInfo = Success | NumericalIssue

record LLT =
  m_matrix :: CovMatrix
  m_info :: ComputationInfo

definition matrixL :: "LLT \<Rightarrow> CovMatrix" where
  "matrixL l = (\<lambda>i j. if j \<le> i then m_matrix l i j else 0)"

text \<open>
  For a concrete run the routine is Eigen's unblocked in-place factorisation,
  which works on a copy of the matrix column by column and stops at the first
  column whose pivot is not positive; the status is \<open>Success\<close> only when no column
  stopped it.
\<close>

fun llt_unblocked :: "nat list \<Rightarrow> CovMatrix \<Rightarrow> int \<times> CovMatrix" where
  "llt_unblocked [] mat = (-1, mat)"
| "llt_unblocked (k # ks) mat =
     (let x = mat k k - sum_list (map (\<lambda>j. (mat k j)\<^sup>2) [0..<k])
      in if x \<le> 0 then (int k, mat)
         else
           (let x' = sqrt x;
                mat1 = set_entry mat k k x';
                mat2 = (\<lambda>i j. if j = k \<and> k < i \<and> i < 5
                         then (mat1 i k - sum_list (map (\<lambda>l. mat1 i l * mat1 k l) [0..<k])) / x'
                         else mat1 i j)
            in llt_unblocked ks mat2))"

definition Eigen_llt :: "CovMatrix \<Rightarrow> LLT" where
  "Eigen_llt a =
     (let r = llt_unblocked [0, 1, 2, 3, 4] a
      in \<lparr>m_matrix = snd r, m_info = (if fst r = -1 then Success else NumericalIssue)\<rparr>)"

datatype diagnostic =
    no_smearing_defined int int
  | bin_misses_in_track_smearing int

text \<open>The nested \<^verbatim>\<open>std::map\<close>s keyed by pt bin and eta bin.\<close>

type_synonym BinMap = "int \<rightharpoonup> (int \<rightharpoonup> CovMatrix)"

text \<open>\<^verbatim>\<open>m[k]\<close> inserts an empty inner map when the key is new.\<close>

definition subscript :: "BinMap \<Rightarrow> int \<Rightarrow> BinMap" where
  "subscript m k = (case m k of None \<Rightarrow> m(k \<mapsto> Map.empty) | Some r \<Rightarrow> m)"

definition row_of :: "BinMap \<Rightarrow> int \<Rightarrow> (int \<rightharpoonup> CovMatrix)" where
  "row_of m k = (case m k of None \<Rightarrow> Map.empty | Some r \<Rightarrow> r)"

text \<open>\<^verbatim>\<open>m[i][j] = v\<close>\<close>

definition assign :: "BinMap \<Rightarrow> int \<Rightarrow> int \<Rightarrow> CovMatrix \<Rightarrow> BinMap" where
  "assign m i j v = m(i \<mapsto> (row_of m i)(j \<mapsto> v))"

text \<open>\<^verbatim>\<open>m.at(i).at(j)\<close>; \<open>None\<close> stands for the exception \<^verbatim>\<open>std::out_of_range\<close>.\<close>

definition at_at :: "BinMap \<Rightarrow> int \<Rightarrow> int \<Rightarrow> CovMatrix option" where
  "at_at m i j = (case m i of None \<Rightarrow> None | Some r \<Rightarrow> r j)"

text \<open>
  Modelled from the spec: the members of the class \<^verbatim>\<open>IPCovSmearing\<close>
  (modules/IPCovSmearing.h is not among the sources): the two ascending
  sequences of bin edges, the two caches keyed by a pair of integer bin indices,
  and the counter of bin misses. The counter is an unbounded integer here. The
  random generator is the number of vectors drawn so far from a fixed sequence
  of draws; the diagnostics stream is the list of lines written.
\<close>

record IPCovSmearing =
  ptbins :: "real list"
  etabins :: "real list"
  fCovarianceMatrices :: BinMap
  fSmearingMatrices :: BinMap
  fNBinMisses :: int
  fRandomGenerator :: nat
  fOutputArray :: "nat list"
  sout :: "diagnostic list"

definition IPCovSmearing_new :: IPCovSmearing where
  "IPCovSmearing_new =
     \<lparr>ptbins = [], etabins = [], fCovarianceMatrices = Map.empty,
      fSmearingMatrices = Map.empty, fNBinMisses = 0, fRandomGenerator = 0,
      fOutputArray = [], sout = []\<rparr>"

subsection \<open>Init\<close>

text \<open>One pass of the body of the two nested loops, with its \<^verbatim>\<open>try\<close> block.\<close>

definition Init_bin ::
  "(CovMatrix \<Rightarrow> LLT) \<Rightarrow> real \<Rightarrow> TFile \<Rightarrow> int \<Rightarrow> int \<Rightarrow> IPCovSmearing \<Rightarrow> IPCovSmearing" where
  "Init_bin llt smear_mult file_para ipt ieta s =
     (case get_cov_matrix file_para ipt ieta of
        Inl e \<Rightarrow> s\<lparr>sout := sout s @ [no_smearing_defined ipt ieta]\<rparr>
      | Inr m \<Rightarrow>
          (let cov = mat_scale m smear_mult
           in s\<lparr>fCovarianceMatrices := assign (fCovarianceMatrices s) ipt ieta cov,
                fSmearingMatrices := assign (fSmearingMatrices s) ipt ieta (matrixL (llt cov))\<rparr>))"

definition Init ::
  "(CovMatrix \<Rightarrow> LLT) \<Rightarrow> real \<Rightarrow> TFile option \<Rightarrow> IPCovSmearing \<Rightarrow> error + IPCovSmearing" where
  "Init llt smear_mult file s =
     (case file of
        None \<Rightarrow> Inl runtime_error
      | Some file_para \<Rightarrow>
          (let s1 = s\<lparr>ptbins := ptbins s @ [10, 20, 50, 100, 200, 250, 500, 750],
                      etabins := etabins s @ [0.0, 0.4, 0.8, 1.05, 1.5, 1.7, 2.0, 2.25, 2.7]\<rparr>;
               pt_bin_max = int (length (ptbins s1));
               eta_bins_max = int (length (etabins s1));
               s2 = fold (\<lambda>ipt. fold (Init_bin llt smear_mult file_para ipt) [0..eta_bins_max - 1])
                      [-1..pt_bin_max - 1] s1
           in Inr (s2\<lparr>fOutputArray := []\<rparr>)))"

definition Finish :: "IPCovSmearing \<Rightarrow> IPCovSmearing" where
  "Finish s =
     (if fNBinMisses s \<noteq> 0
      then s\<lparr>sout := sout s @ [bin_misses_in_track_smearing (fNBinMisses s)]\<rparr>
      else s)"

subsection \<open>Bin lookup and bin resolution\<close>

text \<open>
  The two scans of \<^verbatim>\<open>Process\<close>: \<^verbatim>\<open>bin\<close> starts at -1 and every edge that the value
  exceeds overwrites it with that edge's index.
\<close>

fun scan_bins :: "real list \<Rightarrow> real \<Rightarrow> nat \<Rightarrow> int \<Rightarrow> int" where
  "scan_bins [] x i bin = bin"
| "scan_bins (e # es) x i bin = scan_bins es x (Suc i) (if x > e then int i else bin)"

definition ptbin_of :: "IPCovSmearing \<Rightarrow> real \<Rightarrow> int" where
  "ptbin_of s pt = scan_bins (ptbins s) pt 0 (-1)"

definition etabin_of :: "IPCovSmearing \<Rightarrow> real \<Rightarrow> int" where
  "etabin_of s eta = scan_bins (etabins s) \<bar>eta\<bar> 0 (-1)"

text \<open>
  \<^verbatim>\<open>getValidBins\<close> calls itself on the next lower eta bin. Nothing in it bounds the
  recursion from below, so the model is a partial function: \<open>None\<close> is a call
  that does not return. A thrown \<^verbatim>\<open>std::logic_error\<close> is the value \<open>Inl logic_error\<close>;
  the state the object is left in is returned in both cases. The bin indices are
  unbounded integers: C++ gives no meaning to the overflow of an \<^verbatim>\<open>int\<close>.
\<close>

partial_function (option) getValidBins ::
  "IPCovSmearing \<Rightarrow> int \<Rightarrow> int \<Rightarrow> ((error + int \<times> int) \<times> IPCovSmearing) option" where
  "getValidBins s ptbin etabin =
     (let s1 = s\<lparr>fSmearingMatrices := subscript (fSmearingMatrices s) ptbin\<rparr>;
          pt_mats = row_of (fSmearingMatrices s1) ptbin
      in if pt_mats etabin = None then
           (if etabin = 0 then Some (Inl logic_error, s1)
            else getValidBins (s1\<lparr>fNBinMisses := fNBinMisses s1 + 1\<rparr>) ptbin (etabin - 1))
         else Some (Inr (ptbin, etabin), s1))"

subsection \<open>Doubles that are not finite\<close>

text \<open>
  The value of a double operation: a real number, one of the two infinities,
  or no number.
\<close>

datatype double = Finite real | PlusInfinity | MinusInfinity | NaN

text \<open>
  The quotient of two finite doubles. A zero divisor is the positive zero here:
  the divisor of \<^verbatim>\<open>Process\<close> is a sum times a positive number, and a sum of doubles
  is the negative zero only when both summands are.
\<close>

definition divide_double :: "real \<Rightarrow> real \<Rightarrow> double" where
  "divide_double x y =
     (if y \<noteq> 0 then Finite (x / y)
      else if 0 < x then PlusInfinity
      else if x < 0 then MinusInfinity
      else NaN)"

text \<open>The comparison \<^verbatim>\<open>d >= 0\<close>, which is false when \<open>d\<close> is no number.\<close>

fun ge_zero :: "double \<Rightarrow> bool" where
  "ge_zero (Finite x) = (0 \<le> x)"
| "ge_zero PlusInfinity = True"
| "ge_zero MinusInfinity = False"
| "ge_zero NaN = False"

fun is_negative :: "double \<Rightarrow> bool" where
  "is_negative (Finite x) = (x < 0)"
| "is_negative PlusInfinity = False"
| "is_negative MinusInfinity = True"
| "is_negative NaN = False"

text \<open>
  The tangent of a finite double is finite. A real number can be a pole of the
  tangent, which no double is; the model has no number there.
\<close>

definition tan_double :: "real \<Rightarrow> double" where
  "tan_double x = (if cos x = 0 then NaN else Finite (tan x))"

fun log_double :: "double \<Rightarrow> double" where
  "log_double (Finite x) = (if 0 < x then Finite (ln x) else if x = 0 then MinusInfinity else NaN)"
| "log_double PlusInfinity = PlusInfinity"
| "log_double MinusInfinity = NaN"
| "log_double NaN = NaN"

fun minus_double :: "double \<Rightarrow> double" where
  "minus_double (Finite x) = Finite (- x)"
| "minus_double PlusInfinity = MinusInfinity"
| "minus_double MinusInfinity = PlusInfinity"
| "minus_double NaN = NaN"

fun abs_double :: "double \<Rightarrow> double" where
  "abs_double (Finite x) = Finite \<bar>x\<bar>"
| "abs_double PlusInfinity = PlusInfinity"
| "abs_double MinusInfinity = PlusInfinity"
| "abs_double NaN = NaN"

fun is_finite :: "double \<Rightarrow> bool" where
  "is_finite (Finite x) = True"
| "is_finite PlusInfinity = False"
| "is_finite MinusInfinity = False"
| "is_finite NaN = False"

text \<open>The number of a finite double; 0 stands in for the others.\<close>

fun finite_part :: "double \<Rightarrow> real" where
  "finite_part (Finite x) = x"
| "finite_part PlusInfinity = 0"
| "finite_part MinusInfinity = 0"
| "finite_part NaN = 0"

subsection \<open>Tracks and the store of candidates\<close>

text \<open>
  \<^verbatim>\<open>TLorentzVector\<close> is a ROOT class. The module reads the momentum of the generated
  particle through \<^verbatim>\<open>Pt()\<close>, \<^verbatim>\<open>Eta()\<close>, \<^verbatim>\<open>Phi()\<close>, \<^verbatim>\<open>M()\<close>, \<^verbatim>\<open>Px()\<close>, \<^verbatim>\<open>Py()\<close> and writes
  the smeared momentum with \<^verbatim>\<open>SetPtEtaPhiM\<close>, which takes the absolute value of the
  transverse momentum. The model keeps the four polar coordinates; \<^verbatim>\<open>Px\<close> and
  \<^verbatim>\<open>Py\<close> are the transverse momentum times the cosine and the sine of the azimuth.
\<close>

record TLorentzVector =
  Pt :: real
  Eta :: real
  Phi :: real
  M :: real

definition Px :: "TLorentzVector \<Rightarrow> real" where
  "Px p = Pt p * cos (Phi p)"

definition Py :: "TLorentzVector \<Rightarrow> real" where
  "Py p = Pt p * sin (Phi p)"

definition SetPtEtaPhiM :: "real \<Rightarrow> real \<Rightarrow> real \<Rightarrow> real \<Rightarrow> TLorentzVector" where
  "SetPtEtaPhiM pt eta phi m = \<lparr>Pt = \<bar>pt\<bar>, Eta = eta, Phi = phi, M = m\<rparr>"

text \<open>
  Modelled from the spec: the class \<^verbatim>\<open>Candidate\<close> (classes/DelphesClasses.h is not
  among the sources), with the fields that the module touches: momentum,
  integer charge, perigee point, impact parameter and its uncertainty, the
  track parameters and their covariance. \<^verbatim>\<open>fArray\<close> is the array behind
  \<^verbatim>\<open>GetCandidates()\<close>; its entries are pointers. The two \<^verbatim>\<open>float\<close> arrays are
  functions of the index and hold the real values: the rounding of a double to
  a float is not modelled. \<open>NotFinite\<close> is not a field of the class. The momentum
  of a candidate is a vector of real numbers; when \<^verbatim>\<open>SetPtEtaPhiM\<close> has received a
  transverse momentum or a pseudorapidity that is not finite, \<open>NotFinite\<close> holds
  the two as it received them and \<^verbatim>\<open>Momentum\<close> has 0 in the place of the one that
  is not finite. Otherwise it is \<open>None\<close>.
\<close>

record Candidate =
  Momentum :: TLorentzVector
  Charge :: int
  Xd :: real
  Yd :: real
  Zd :: real
  Dxy :: real
  SDxy :: real
  trkPar :: "nat \<Rightarrow> real"
  trkCov :: "nat \<Rightarrow> real"
  fArray :: "nat list"
  NotFinite :: "(double \<times> double) option"

text \<open>
  Candidates live in a store; a pointer is a position in it. Following a
  pointer that is not in the store is the outcome \<open>null_pointer\<close>.
\<close>

definition deref :: "Candidate list \<Rightarrow> nat \<Rightarrow> Candidate option" where
  "deref h p = (if p < length h then Some (h ! p) else None)"

text \<open>
  Modelled from the spec: \<^verbatim>\<open>Candidate::Clone\<close> (classes/DelphesClasses.cc is not
  among the sources). The smeared track is a copy of the input track with an
  identity of its own: the clone is a new object of the store holding the same
  field values.
\<close>

definition Clone :: "Candidate list \<Rightarrow> Candidate \<Rightarrow> nat \<times> Candidate list" where
  "Clone h c = (length h, h @ [c])"

text \<open>
  Modelled from the spec: the macros \<^verbatim>\<open>TRKCOV_TOARRAY\<close> and \<^verbatim>\<open>TRKCOV_2TOARRAY\<close>
  (classes/flavortag/track_set_macros.hh is not among the sources). The entry of
  the array that is named by a pair of parameters receives the matrix entry of
  that pair; \<open>idx\<close>, the position of a named entry in the array, is a parameter.
\<close>

definition TRKCOV_TOARRAY ::
  "(nat \<Rightarrow> nat \<Rightarrow> nat) \<Rightarrow> CovMatrix \<Rightarrow> nat \<times> nat \<Rightarrow> (nat \<Rightarrow> real) \<Rightarrow> (nat \<Rightarrow> real)" where
  "TRKCOV_TOARRAY idx cov xy cov_array = cov_array(idx (fst xy) (snd xy) := cov (fst xy) (snd xy))"

definition set_covariance :: "(nat \<Rightarrow> nat \<Rightarrow> nat) \<Rightarrow> (nat \<Rightarrow> real) \<Rightarrow> CovMatrix \<Rightarrow> (nat \<Rightarrow> real)" where
  "set_covariance idx cov_array cov =
     fold (TRKCOV_TOARRAY idx cov)
       [(D0, D0),
        (Z0, Z0), (Z0, D0),
        (PHI, PHI), (PHI, D0), (PHI, Z0),
        (THETA, THETA), (THETA, D0), (THETA, Z0), (THETA, PHI),
        (QOVERP, QOVERP), (QOVERP, D0), (QOVERP, Z0), (QOVERP, PHI), (QOVERP, THETA)]
       cov_array"

subsection \<open>Process\<close>

definition getRandomVector :: "(nat \<Rightarrow> TrackVector) \<Rightarrow> IPCovSmearing \<Rightarrow> TrackVector \<times> IPCovSmearing" where
  "getRandomVector draws s =
     (draws (fRandomGenerator s), s\<lparr>fRandomGenerator := Suc (fRandomGenerator s)\<rparr>)"

definition track_vector :: "real \<Rightarrow> real \<Rightarrow> real \<Rightarrow> real \<Rightarrow> real \<Rightarrow> TrackVector" where
  "track_vector d0 z0 phi theta qoverp = (\<lambda>i. [d0, z0, phi, theta, qoverp] ! i)"

text \<open>
  The first block of the loop body: the five parameters of the track before
  smearing, from the momentum and charge of the generated particle and the
  perigee point of the track.
\<close>

definition forward_parameters :: "Candidate \<Rightarrow> Candidate \<Rightarrow> TrackVector" where
  "forward_parameters trk particle =
     (let candidateMomentum = Momentum particle;
          charge = Charge particle;
          eta = Eta candidateMomentum;
          pt = Pt candidateMomentum;
          phi = Phi candidateMomentum;
          px = Px candidateMomentum;
          py = Py candidateMomentum;
          xd = Xd trk;
          yd = Yd trk;
          zd = Zd trk;
          qoverp = real_of_int charge / (pt * cosh eta);
          theta = 2 * arctan (exp (- eta));
          d0 = (xd * py - yd * px) / pt;
          z0 = zd
      in track_vector d0 z0 phi theta qoverp)"

text \<open>
  The last block of the loop body: the smeared parameters, the covariance
  array and the reconstructed kinematics are written into the clone, which is
  then linked to the original track and added to the output array. The
  reconstructed transverse momentum and pseudorapidity are doubles that need
  not be finite; the assertion fails when the first is negative or no number.
\<close>

definition fill_smeared_track ::
  "(nat \<Rightarrow> nat \<Rightarrow> nat) \<Rightarrow> nat \<Rightarrow> Candidate \<Rightarrow> TrackVector \<Rightarrow> CovMatrix \<Rightarrow> Candidate \<Rightarrow> error + Candidate" where
  "fill_smeared_track idx track particle smeared cov smeared_track =
     (let charge = Charge particle;
          eta = Eta (Momentum particle);
          phi = Phi (Momentum particle);
          phid0 = phi - pi / 2;
          cov_array = set_covariance idx (trkCov smeared_track) cov;
          smeared_pt = divide_double (real_of_int charge) (smeared QOVERP * cosh eta)
      in if \<not> ge_zero smeared_pt then Inl assertion_failed
         else
           (let smeared_eta = minus_double (log_double (tan_double (smeared THETA / 2)));
                smeared_d0 = smeared D0;
                phid0_reco = phid0 + (smeared PHI - phi)
            in Inr (smeared_track
                 \<lparr>Momentum := SetPtEtaPhiM (finite_part smeared_pt) (finite_part smeared_eta)
                                (smeared PHI) (M (Momentum particle)),
                  NotFinite := (if is_finite smeared_pt \<and> is_finite smeared_eta then None
                                else Some (abs_double smeared_pt, smeared_eta)),
                  Xd := smeared_d0 * cos phid0_reco,
                  Yd := smeared_d0 * sin phid0_reco,
                  Zd := smeared Z0,
                  Dxy := smeared_d0,
                  SDxy := sqrt \<bar>cov_array (idx D0 D0)\<bar>,
                  trkPar := (\<lambda>iii. if iii < 5 then smeared iii else trkPar smeared_track iii),
                  trkCov := cov_array,
                  fArray := [track]\<rparr>)))"

text \<open>
  One pass of the loop body for the track behind the pointer \<open>track\<close>. The
  result \<open>None\<close> is a pass that does not return. The first block divides by the
  transverse momentum of the particle; when that is 0 the parameters of the
  track are not finite, and the model does not follow the pass: its outcome is
  \<open>not_finite\<close>.
\<close>

definition Process_track ::
  "(nat \<Rightarrow> nat \<Rightarrow> nat) \<Rightarrow> (nat \<Rightarrow> TrackVector) \<Rightarrow> nat \<Rightarrow> Candidate list \<times> IPCovSmearing
     \<Rightarrow> (error + Candidate list \<times> IPCovSmearing) option" where
  "Process_track idx draws track hs =
     (let h = fst hs; s = snd hs
      in case deref h track of
        None \<Rightarrow> Some (Inl null_pointer)
      | Some trk \<Rightarrow>
        (case fArray trk of
           [] \<Rightarrow> Some (Inl null_pointer)
         | p # ps \<Rightarrow>
           (case deref h p of
              None \<Rightarrow> Some (Inl null_pointer)
            | Some particle \<Rightarrow>
                if fArray particle \<noteq> [] then Some (Inl assertion_failed)
                else
                  (let eta = Eta (Momentum particle);
                       pt = Pt (Momentum particle)
                   in if pt * cosh eta = 0 \<or> pt = 0 then Some (Inl not_finite)
                      else
                        (let ptbin = ptbin_of s pt;
                             etabin = etabin_of s eta
                         in case getValidBins s ptbin etabin of
                              None \<Rightarrow> None
                            | Some (Inl e, s1) \<Rightarrow> Some (Inl e)
                            | Some (Inr bins, s1) \<Rightarrow>
                                (case at_at (fSmearingMatrices s1) (fst bins) (snd bins) of
                                   None \<Rightarrow> Some (Inl out_of_range)
                                 | Some smearing_matrix \<Rightarrow>
                                     (let track_parameters = forward_parameters trk particle;
                                          (rand, s2) = getRandomVector draws s1;
                                          smearing = mat_vec smearing_matrix rand;
                                          smeared = vec_add smearing track_parameters;
                                          (smeared_track, h1) = Clone h trk
                                      in case at_at (fCovarianceMatrices s2) (fst bins) (snd bins) of
                                           None \<Rightarrow> Some (Inl out_of_range)
                                         | Some cov \<Rightarrow>
                                             (case fill_smeared_track idx track particle smeared cov
                                                     (h1 ! smeared_track) of
                                                Inl e \<Rightarrow> Some (Inl e)
                                              | Inr c \<Rightarrow>
                                                  Some (Inr (h1[smeared_track := c],
                                                    s2\<lparr>fOutputArray := fOutputArray s2 @ [smeared_track]\<rparr>))))))))))"

text \<open>The loop of \<^verbatim>\<open>Process\<close> over the input array.\<close>

fun Process ::
  "(nat \<Rightarrow> nat \<Rightarrow> nat) \<Rightarrow> (nat \<Rightarrow> TrackVector) \<Rightarrow> nat list \<Rightarrow> Candidate list \<times> IPCovSmearing
     \<Rightarrow> (error + Candidate list \<times> IPCovSmearing) option" where
  "Process idx draws [] hs = Some (Inr hs)"
| "Process idx draws (track # fInputArray) hs =
     (case Process_track idx draws track hs of
        None \<Rightarrow> None
      | Some (Inl e) \<Rightarrow> Some (Inl e)
      | Some (Inr hs') \<Rightarrow> Process idx draws fInputArray hs')"

subsection \<open>Notions used in the statements\<close>

text \<open>The diagonal matrix with the given diagonal.\<close>

definition diag :: "real list \<Rightarrow> CovMatrix" where
  "diag ds = (\<lambda>i j. if i = j \<and> i < length ds then ds ! i else 0)"

text \<open>
  What one pass of the body of \<^verbatim>\<open>Init\<close> leaves in a cache for a bin: the image
  under \<open>g\<close> of the scaled matrix when the file has one, the previous content
  otherwise.
\<close>

definition loaded ::
  "(CovMatrix \<Rightarrow> CovMatrix) \<Rightarrow> real \<Rightarrow> TFile \<Rightarrow> int \<Rightarrow> int \<Rightarrow> CovMatrix option \<Rightarrow> CovMatrix option" where
  "loaded g smear_mult file_para ipt ieta prev =
     (case get_cov_matrix file_para ipt ieta of
        Inl e \<Rightarrow> prev
      | Inr m \<Rightarrow> Some (g (mat_scale m smear_mult)))"

text \<open>A field of the track that a pass of the loop body has added to the output array.\<close>

definition emitted ::
  "(Candidate \<Rightarrow> 'a) \<Rightarrow> (error + Candidate list \<times> IPCovSmearing) option \<Rightarrow> (error + 'a) option" where
  "emitted field r =
     (case r of
        None \<Rightarrow> None
      | Some (Inl e) \<Rightarrow> Some (Inl e)
      | Some (Inr hs) \<Rightarrow> Some (Inr (field (fst hs ! last (fOutputArray (snd hs))))))"

text \<open>
  The transverse momentum that \<^verbatim>\<open>Process\<close> reconstructs for a smeared track: the
  charge of the particle over the product of the smeared qoverp and the
  hyperbolic cosine of the eta of the particle.
\<close>

definition reconstructed_pt :: "Candidate \<Rightarrow> Candidate \<Rightarrow> double" where
  "reconstructed_pt particle c =
     divide_double (real_of_int (Charge particle)) (trkPar c QOVERP * cosh (Eta (Momentum particle)))"

text \<open>The transverse momentum of a candidate, as a double.\<close>

definition momentum_pt :: "Candidate \<Rightarrow> double" where
  "momentum_pt c = (case NotFinite c of None \<Rightarrow> Finite (Pt (Momentum c)) | Some pe \<Rightarrow> fst pe)"

subsection \<open>Concrete data\<close>

text \<open>A file whose only matrix, for pt bin 0 and eta bin 0, has a negative diagonal.\<close>

definition negative_file :: TFile where
  "negative_file = [covmat_name 0 0 \<mapsto> (\<lambda>i j. if i = j then -1 else 0)]"

text \<open>The covariance matrix that \<^verbatim>\<open>Init\<close> computes from it with the multiple 1.\<close>

definition negative_cov :: CovMatrix where
  "negative_cov =
     mat_scale (convert_units_to_gev
       (\<lambda>iii jjj. if iii < 5 \<and> jjj < 5 then (if iii = jjj then -1 else 0) else 0)) 1"

text \<open>A file with the identity matrix for pt bin 0 and eta bin 3 and nothing else.\<close>

definition identity_file :: TFile where
  "identity_file = [covmat_name 0 3 \<mapsto> Identity]"

text \<open>
  A module with the bin edges of \<^verbatim>\<open>Init\<close> and the identity matrix as covariance
  and as smearing matrix of pt bin 1, eta bin 1.
\<close>

definition one_bin_module :: IPCovSmearing where
  "one_bin_module =
     \<lparr>ptbins = [10, 20, 50, 100, 200, 250, 500, 750],
      etabins = [0.0, 0.4, 0.8, 1.05, 1.5, 1.7, 2.0, 2.25, 2.7],
      fCovarianceMatrices = [1 \<mapsto> [1 \<mapsto> Identity]],
      fSmearingMatrices = [1 \<mapsto> [1 \<mapsto> Identity]],
      fNBinMisses = 0, fRandomGenerator = 0, fOutputArray = [], sout = []\<rparr>"

text \<open>Draws that are all zero, and draws that only move the last parameter.\<close>

definition zero_draws :: "nat \<Rightarrow> TrackVector" where
  "zero_draws = (\<lambda>n i. 0)"

definition qoverp_draws :: "nat \<Rightarrow> TrackVector" where
  "qoverp_draws = (\<lambda>n i. if i = 4 then 1 else 0)"

text \<open>Draws that cancel the qoverp of a particle of charge 1, pt 50 and eta 1/2.\<close>

definition cancelling_draws :: "nat \<Rightarrow> TrackVector" where
  "cancelling_draws = (\<lambda>n i. if i = 4 then - (1 / (50 * cosh (1 / 2))) else 0)"

text \<open>The position of a named entry in the covariance array of the examples.\<close>

definition triangle_idx :: "nat \<Rightarrow> nat \<Rightarrow> nat" where
  "triangle_idx x y = x * (x + 1) div 2 + y"

text \<open>
  A store with a generated particle of the given charge and eta (pt 50, phi 0,
  mass 0) at position 0 and, at position 1, its track with perigee point
  (1, 0, 0).
\<close>

definition blank_candidate :: Candidate where
  "blank_candidate =
     \<lparr>Momentum = \<lparr>Pt = 0, Eta = 0, Phi = 0, M = 0\<rparr>, Charge = 0,
      Xd = 0, Yd = 0, Zd = 0, Dxy = 0, SDxy = 0,
      trkPar = (\<lambda>i. 0), trkCov = (\<lambda>i. 0), fArray = [], NotFinite = None\<rparr>"

definition example_store :: "int \<Rightarrow> real \<Rightarrow> Candidate list" where
  "example_store q eta =
     [blank_candidate\<lparr>Momentum := \<lparr>Pt = 50, Eta = eta, Phi = 0, M = 0\<rparr>, Charge := q\<rparr>,
      blank_candidate\<lparr>Momentum := \<lparr>Pt = 50, Eta = eta, Phi = 0, M = 0\<rparr>, Charge := q,
        Xd := 1, fArray := [0]\<rparr>]"

section \<open>Properties\<close>

subsection \<open>Matrices\<close>

lemma convert_units_to_gev_entry:
  "i < 5 \<Longrightarrow> j < 5 \<Longrightarrow>
   convert_units_to_gev A i j = (if i = 4 then 1000 else 1) * A i j * (if j = 4 then 1000 else 1)"
  unfolding convert_units_to_gev_def Let_def mat_mul_def set_entry_def Identity_def sum5_def
  by (auto simp: numeral_eq_Suc less_Suc_eq)

lemma do_low_pt_hack_entry:
  "i < 5 \<Longrightarrow> j < 5 \<Longrightarrow>
   do_low_pt_hack A i j =
     (if i = D0 \<or> i = Z0 then 2 else 1) * A i j * (if j = D0 \<or> j = Z0 then 2 else 1)"
  unfolding do_low_pt_hack_def Let_def mat_mul_def set_entry_def Identity_def sum5_def D0_def Z0_def
  by (auto simp: numeral_eq_Suc less_Suc_eq)

lemma get_cov_matrix_low:
  "get_cov_matrix file (-1) etabin =
     (case get_cov_matrix file 0 etabin of Inl e \<Rightarrow> Inl e | Inr B \<Rightarrow> Inr (do_low_pt_hack B))"
  by (simp add: get_cov_matrix_def Let_def split: option.splits)

lemma get_cov_matrix_other:
  "ptbin \<noteq> -1 \<Longrightarrow> get_cov_matrix file ptbin etabin =
     (case file (covmat_name ptbin etabin) of
        None \<Rightarrow> Inl invalid_argument
      | Some cptr \<Rightarrow> Inr (convert_units_to_gev (\<lambda>iii jjj. if iii < 5 \<and> jjj < 5 then cptr iii jjj else 0)))"
  by (simp add: get_cov_matrix_def Let_def split: option.splits)

lemma convert_units_to_gev_diag:
  "convert_units_to_gev A = mat_mul (mat_mul (diag [1, 1, 1, 1, 1000]) A) (diag [1, 1, 1, 1, 1000])"
  unfolding convert_units_to_gev_def Let_def mat_mul_def set_entry_def Identity_def sum5_def diag_def
  by (intro ext) (auto simp: numeral_eq_Suc)

lemma do_low_pt_hack_diag:
  "do_low_pt_hack A = mat_mul (mat_mul (diag [2, 2, 1, 1, 1]) A) (diag [2, 2, 1, 1, 1])"
  unfolding do_low_pt_hack_def Let_def mat_mul_def set_entry_def Identity_def sum5_def diag_def D0_def Z0_def
  by (intro ext) (auto simp: numeral_eq_Suc)

lemma do_low_pt_hack_scale: "mat_scale (do_low_pt_hack A) c = do_low_pt_hack (mat_scale A c)"
  unfolding do_low_pt_hack_def Let_def mat_mul_def mat_scale_def sum5_def
  by (intro ext) (simp add: algebra_simps)

subsection \<open>What Init stores\<close>

lemma at_at_assign: "at_at (assign m i j v) p e = (if p = i \<and> e = j then Some v else at_at m p e)"
  by (simp add: at_at_def assign_def row_of_def split: option.splits)

lemma loaded_idem [simp]: "loaded g c f p e (loaded g c f p e prev) = loaded g c f p e prev"
  by (simp add: loaded_def split: sum.splits)

lemma Init_bin_smearing:
  "at_at (fSmearingMatrices (Init_bin llt c f i j s)) p e =
     (if p = i \<and> e = j then loaded (\<lambda>cov. matrixL (llt cov)) c f p e (at_at (fSmearingMatrices s) p e)
      else at_at (fSmearingMatrices s) p e)"
  by (simp add: Init_bin_def loaded_def at_at_assign Let_def split: sum.splits)

lemma Init_bin_covariance:
  "at_at (fCovarianceMatrices (Init_bin llt c f i j s)) p e =
     (if p = i \<and> e = j then loaded (\<lambda>cov. cov) c f p e (at_at (fCovarianceMatrices s) p e)
      else at_at (fCovarianceMatrices s) p e)"
  by (simp add: Init_bin_def loaded_def at_at_assign Let_def split: sum.splits)

lemma Init_row_smearing:
  "at_at (fSmearingMatrices (fold (Init_bin llt c f i) etas s)) p e =
     (if p = i \<and> e \<in> set etas then loaded (\<lambda>cov. matrixL (llt cov)) c f p e (at_at (fSmearingMatrices s) p e)
      else at_at (fSmearingMatrices s) p e)"
  by (induction etas arbitrary: s) (auto simp: Init_bin_smearing)

lemma Init_row_covariance:
  "at_at (fCovarianceMatrices (fold (Init_bin llt c f i) etas s)) p e =
     (if p = i \<and> e \<in> set etas then loaded (\<lambda>cov. cov) c f p e (at_at (fCovarianceMatrices s) p e)
      else at_at (fCovarianceMatrices s) p e)"
  by (induction etas arbitrary: s) (auto simp: Init_bin_covariance)

lemma Init_loops_smearing:
  "at_at (fSmearingMatrices (fold (\<lambda>ipt. fold (Init_bin llt c f ipt) etas) pts s)) p e =
     (if p \<in> set pts \<and> e \<in> set etas then loaded (\<lambda>cov. matrixL (llt cov)) c f p e (at_at (fSmearingMatrices s) p e)
      else at_at (fSmearingMatrices s) p e)"
  by (induction pts arbitrary: s) (auto simp: Init_row_smearing)

lemma Init_loops_covariance:
  "at_at (fCovarianceMatrices (fold (\<lambda>ipt. fold (Init_bin llt c f ipt) etas) pts s)) p e =
     (if p \<in> set pts \<and> e \<in> set etas then loaded (\<lambda>cov. cov) c f p e (at_at (fCovarianceMatrices s) p e)
      else at_at (fCovarianceMatrices s) p e)"
  by (induction pts arbitrary: s) (auto simp: Init_row_covariance)

lemma Init_bin_sout:
  "set (sout (Init_bin llt c f i j s)) =
     set (sout s) \<union> (if isl (get_cov_matrix f i j) then {no_smearing_defined i j} else {})"
  by (auto simp: Init_bin_def Let_def split: sum.splits)

lemma Init_row_sout:
  "set (sout (fold (Init_bin llt c f i) etas s)) =
     set (sout s) \<union> {no_smearing_defined i e | e. e \<in> set etas \<and> isl (get_cov_matrix f i e)}"
  by (induction etas arbitrary: s) (auto simp: Init_bin_sout)

lemma Init_loops_sout:
  "set (sout (fold (\<lambda>ipt. fold (Init_bin llt c f ipt) etas) pts s)) =
     set (sout s) \<union> {no_smearing_defined p e | p e. p \<in> set pts \<and> e \<in> set etas \<and> isl (get_cov_matrix f p e)}"
  by (induction pts arbitrary: s) (auto simp: Init_row_sout)

lemma Init_bin_other:
  "ptbins (Init_bin llt c f i j s) = ptbins s" "etabins (Init_bin llt c f i j s) = etabins s"
  "fNBinMisses (Init_bin llt c f i j s) = fNBinMisses s"
  by (simp_all add: Init_bin_def Let_def split: sum.splits)

lemma Init_loops_other:
  "ptbins (fold (\<lambda>ipt. fold (Init_bin llt c f ipt) etas) pts s) = ptbins s"
  "etabins (fold (\<lambda>ipt. fold (Init_bin llt c f ipt) etas) pts s) = etabins s"
  "fNBinMisses (fold (\<lambda>ipt. fold (Init_bin llt c f ipt) etas) pts s) = fNBinMisses s"
proof -
  have row: "ptbins (fold (Init_bin llt c f i) etas s) = ptbins s \<and>
    etabins (fold (Init_bin llt c f i) etas s) = etabins s \<and>
    fNBinMisses (fold (Init_bin llt c f i) etas s) = fNBinMisses s" for i s
    by (induction etas arbitrary: s) (simp_all add: Init_bin_other)
  have "ptbins (fold (\<lambda>ipt. fold (Init_bin llt c f ipt) etas) pts s) = ptbins s \<and>
    etabins (fold (\<lambda>ipt. fold (Init_bin llt c f ipt) etas) pts s) = etabins s \<and>
    fNBinMisses (fold (\<lambda>ipt. fold (Init_bin llt c f ipt) etas) pts s) = fNBinMisses s"
    by (induction pts arbitrary: s) (simp_all add: row)
  then show "ptbins (fold (\<lambda>ipt. fold (Init_bin llt c f ipt) etas) pts s) = ptbins s"
  "etabins (fold (\<lambda>ipt. fold (Init_bin llt c f ipt) etas) pts s) = etabins s"
  "fNBinMisses (fold (\<lambda>ipt. fold (Init_bin llt c f ipt) etas) pts s) = fNBinMisses s" by simp_all
qed

lemma at_at_empty: "at_at (\<lambda>x. None) p e = None"
  by (simp add: at_at_def)

lemma Init_new:
  "Init llt c (Some f) IPCovSmearing_new = Inr s \<Longrightarrow>
     ptbins s = [10, 20, 50, 100, 200, 250, 500, 750] \<and>
     etabins s = [0.0, 0.4, 0.8, 1.05, 1.5, 1.7, 2.0, 2.25, 2.7] \<and>
     fNBinMisses s = 0 \<and>
     at_at (fSmearingMatrices s) p e =
       (if -1 \<le> p \<and> p \<le> 7 \<and> 0 \<le> e \<and> e \<le> 8
        then loaded (\<lambda>cov. matrixL (llt cov)) c f p e None else None) \<and>
     at_at (fCovarianceMatrices s) p e =
       (if -1 \<le> p \<and> p \<le> 7 \<and> 0 \<le> e \<and> e \<le> 8
        then loaded (\<lambda>cov. cov) c f p e None else None) \<and>
     set (sout s) = {no_smearing_defined p e | p e. -1 \<le> p \<and> p \<le> 7 \<and> 0 \<le> e \<and> e \<le> 8 \<and> isl (get_cov_matrix f p e)}"
  unfolding Init_def Let_def
  by (auto simp: Init_loops_smearing Init_loops_covariance Init_loops_sout Init_loops_other
      IPCovSmearing_new_def at_at_empty)


subsection \<open>Unit conversion and low-momentum correction\<close>

text \<open>
  C6. \<^verbatim>\<open>convert_units_to_gev\<close> maps a matrix to the congruence with diag(1,1,1,1,1000):
  the entry (4,4) is multiplied by 1000 squared, an entry with exactly one index
  equal to 4 by 1000, any other entry is unchanged; and every matrix that
  \<^verbatim>\<open>get_cov_matrix\<close> returns went through this conversion.
\<close>

theorem convert_units_to_gev_congruence:
  "convert_units_to_gev A = mat_mul (mat_mul (diag [1, 1, 1, 1, 1000]) A) (diag [1, 1, 1, 1, 1000]) \<and>
   (i < 5 \<and> j < 5 \<longrightarrow>
      convert_units_to_gev A i j = (if i = 4 then 1000 else 1) * (if j = 4 then 1000 else 1) * A i j) \<and>
   convert_units_to_gev A 4 4 = 1000\<^sup>2 * A 4 4 \<and>
   (get_cov_matrix file_para ptbin etabin = Inr C \<longrightarrow>
      (\<exists>cptr. file_para (covmat_name (if ptbin = -1 then 0 else ptbin) etabin) = Some cptr \<and>
         C = (if ptbin = -1 then do_low_pt_hack else id)
               (convert_units_to_gev (\<lambda>iii jjj. if iii < 5 \<and> jjj < 5 then cptr iii jjj else 0))))"
proof (intro conjI impI)
  show "convert_units_to_gev A = mat_mul (mat_mul (diag [1, 1, 1, 1, 1000]) A) (diag [1, 1, 1, 1, 1000])"
    by (rule convert_units_to_gev_diag)
  show "convert_units_to_gev A i j = (if i = 4 then 1000 else 1) * (if j = 4 then 1000 else 1) * A i j"
    if "i < 5 \<and> j < 5"
    using that by (simp add: convert_units_to_gev_entry)
  show "convert_units_to_gev A 4 4 = 1000\<^sup>2 * A 4 4"
    by (simp add: convert_units_to_gev_entry)
  show "\<exists>cptr. file_para (covmat_name (if ptbin = -1 then 0 else ptbin) etabin) = Some cptr \<and>
         C = (if ptbin = -1 then do_low_pt_hack else id)
               (convert_units_to_gev (\<lambda>iii jjj. if iii < 5 \<and> jjj < 5 then cptr iii jjj else 0))"
    if "get_cov_matrix file_para ptbin etabin = Inr C"
    using that by (auto simp: get_cov_matrix_def Let_def split: option.splits if_splits)
qed

theorem convert_units_to_gev_congruence_witness:
  "convert_units_to_gev (\<lambda>i j. 1) 4 4 = 1000000 \<and>
   convert_units_to_gev (\<lambda>i j. 1) 4 2 = 1000 \<and>
   convert_units_to_gev (\<lambda>i j. 1) 1 2 = 1 \<and>
   get_cov_matrix identity_file 0 3 =
     Inr (convert_units_to_gev (\<lambda>iii jjj. if iii < 5 \<and> jjj < 5 then Identity iii jjj else 0)) \<and>
   identity_file (covmat_name 0 3) = Some Identity"
proof -
  have g: "get_cov_matrix identity_file 0 3 =
     Inr (convert_units_to_gev (\<lambda>iii jjj. if iii < 5 \<and> jjj < 5 then Identity iii jjj else 0))"
    by (simp add: get_cov_matrix_def identity_file_def)
  note t = convert_units_to_gev_congruence [where A = "\<lambda>i j. 1" and file_para = identity_file
      and ptbin = 0 and etabin = 3]
  have "convert_units_to_gev (\<lambda>i j. 1) 4 4 = 1000000"
    using t [where i = 4 and j = 4, THEN conjunct2, THEN conjunct1] by simp
  moreover have "convert_units_to_gev (\<lambda>i j. 1) 4 2 = 1000"
    using t [where i = 4 and j = 2, THEN conjunct2, THEN conjunct1] by simp
  moreover have "convert_units_to_gev (\<lambda>i j. 1) 1 2 = 1"
    using t [where i = 1 and j = 2, THEN conjunct2, THEN conjunct1] by simp
  ultimately show ?thesis
    using g by (simp add: identity_file_def)
qed

text \<open>
  C5. The matrix for pt bin -1 is the matrix of pt bin 0 of the same eta bin
  under the congruence with diag(2,2,1,1,1): the entries d0,d0 and z0,z0 are
  multiplied by 2 squared, an entry with exactly one index among d0, z0 by 2,
  any other entry is unchanged. This holds for the matrices that
  \<^verbatim>\<open>get_cov_matrix\<close> returns and for the ones that \<^verbatim>\<open>Init\<close> stores; for another
  pt bin the matrix is only converted.
\<close>

theorem low_pt_hack_congruence:
  "get_cov_matrix file_para (-1) etabin =
     (case get_cov_matrix file_para 0 etabin of Inl e \<Rightarrow> Inl e | Inr B \<Rightarrow> Inr (do_low_pt_hack B)) \<and>
   do_low_pt_hack A = mat_mul (mat_mul (diag [2, 2, 1, 1, 1]) A) (diag [2, 2, 1, 1, 1]) \<and>
   (i < 5 \<and> j < 5 \<longrightarrow>
      do_low_pt_hack A i j =
        (if i = D0 \<or> i = Z0 then 2 else 1) * (if j = D0 \<or> j = Z0 then 2 else 1) * A i j) \<and>
   do_low_pt_hack A D0 D0 = 2\<^sup>2 * A D0 D0 \<and>
   do_low_pt_hack A Z0 Z0 = 2\<^sup>2 * A Z0 Z0 \<and>
   (Init llt smear_mult (Some file_para) IPCovSmearing_new = Inr s \<and> 0 \<le> etabin \<and> etabin \<le> 8 \<longrightarrow>
      at_at (fCovarianceMatrices s) (-1) etabin =
        map_option do_low_pt_hack (at_at (fCovarianceMatrices s) 0 etabin)) \<and>
   (ptbin \<noteq> -1 \<longrightarrow>
      get_cov_matrix file_para ptbin etabin =
        (case file_para (covmat_name ptbin etabin) of
           None \<Rightarrow> Inl invalid_argument
         | Some cptr \<Rightarrow>
             Inr (convert_units_to_gev (\<lambda>iii jjj. if iii < 5 \<and> jjj < 5 then cptr iii jjj else 0))))"
proof (intro conjI impI)
  show "get_cov_matrix file_para (-1) etabin =
     (case get_cov_matrix file_para 0 etabin of Inl e \<Rightarrow> Inl e | Inr B \<Rightarrow> Inr (do_low_pt_hack B))"
    by (rule get_cov_matrix_low)
  show "do_low_pt_hack A = mat_mul (mat_mul (diag [2, 2, 1, 1, 1]) A) (diag [2, 2, 1, 1, 1])"
    by (rule do_low_pt_hack_diag)
  show "do_low_pt_hack A i j =
        (if i = D0 \<or> i = Z0 then 2 else 1) * (if j = D0 \<or> j = Z0 then 2 else 1) * A i j"
    if "i < 5 \<and> j < 5"
    using that by (simp add: do_low_pt_hack_entry)
  show "do_low_pt_hack A D0 D0 = 2\<^sup>2 * A D0 D0"
    by (simp add: do_low_pt_hack_entry D0_def)
  show "do_low_pt_hack A Z0 Z0 = 2\<^sup>2 * A Z0 Z0"
    by (simp add: do_low_pt_hack_entry Z0_def)
  show "at_at (fCovarianceMatrices s) (-1) etabin =
        map_option do_low_pt_hack (at_at (fCovarianceMatrices s) 0 etabin)"
    if "Init llt smear_mult (Some file_para) IPCovSmearing_new = Inr s \<and> 0 \<le> etabin \<and> etabin \<le> 8"
  proof -
    from that have I: "Init llt smear_mult (Some file_para) IPCovSmearing_new = Inr s" by simp
    have "at_at (fCovarianceMatrices s) (-1) etabin = loaded (\<lambda>cov. cov) smear_mult file_para (-1) etabin None"
      using Init_new [OF I, of "-1" etabin] that by simp
    moreover have "at_at (fCovarianceMatrices s) 0 etabin = loaded (\<lambda>cov. cov) smear_mult file_para 0 etabin None"
      using Init_new [OF I, of 0 etabin] that by simp
    ultimately show ?thesis
      by (simp add: loaded_def get_cov_matrix_low do_low_pt_hack_scale split: sum.splits)
  qed
  show "get_cov_matrix file_para ptbin etabin =
        (case file_para (covmat_name ptbin etabin) of
           None \<Rightarrow> Inl invalid_argument
         | Some cptr \<Rightarrow>
             Inr (convert_units_to_gev (\<lambda>iii jjj. if iii < 5 \<and> jjj < 5 then cptr iii jjj else 0)))"
    if "ptbin \<noteq> -1"
    using that by (rule get_cov_matrix_other)
qed

theorem low_pt_hack_congruence_witness:
  "do_low_pt_hack (\<lambda>i j. 1) 0 1 = 4 \<and>
   do_low_pt_hack (\<lambda>i j. 1) 1 4 = 2 \<and>
   do_low_pt_hack (\<lambda>i j. 1) 3 4 = 1 \<and>
   isl (Init Eigen_llt 1 (Some identity_file) IPCovSmearing_new) = False \<and>
   at_at (fCovarianceMatrices (projr (Init Eigen_llt 1 (Some identity_file) IPCovSmearing_new))) (-1) 3 =
     map_option do_low_pt_hack
       (at_at (fCovarianceMatrices (projr (Init Eigen_llt 1 (Some identity_file) IPCovSmearing_new))) 0 3) \<and>
   at_at (fCovarianceMatrices (projr (Init Eigen_llt 1 (Some identity_file) IPCovSmearing_new))) 0 3 \<noteq> None \<and>
   get_cov_matrix identity_file 0 3 =
     Inr (convert_units_to_gev (\<lambda>iii jjj. if iii < 5 \<and> jjj < 5 then Identity iii jjj else 0))"
proof -
  obtain s where I: "Init Eigen_llt 1 (Some identity_file) IPCovSmearing_new = Inr s"
    by (simp add: Init_def Let_def)
  have g: "get_cov_matrix identity_file 0 3 =
     Inr (convert_units_to_gev (\<lambda>iii jjj. if iii < 5 \<and> jjj < 5 then Identity iii jjj else 0))"
    by (simp add: get_cov_matrix_def identity_file_def)
  have st: "at_at (fCovarianceMatrices s) 0 3 \<noteq> None"
    using Init_new [OF I, of 0 3] g by (simp add: loaded_def)
  note t = low_pt_hack_congruence [where file_para = identity_file and etabin = 3 and A = "\<lambda>i j. 1"
      and llt = Eigen_llt and smear_mult = 1 and s = s and ptbin = 0]
  have "do_low_pt_hack (\<lambda>i j. 1) 0 1 = 4"
    using t [where i = 0 and j = 1, THEN conjunct2, THEN conjunct2, THEN conjunct1] by (simp add: D0_def Z0_def)
  moreover have "do_low_pt_hack (\<lambda>i j. 1) 1 4 = 2"
    using t [where i = 1 and j = 4, THEN conjunct2, THEN conjunct2, THEN conjunct1] by (simp add: D0_def Z0_def)
  moreover have "do_low_pt_hack (\<lambda>i j. 1) 3 4 = 1"
    using t [where i = 3 and j = 4, THEN conjunct2, THEN conjunct2, THEN conjunct1] by (simp add: D0_def Z0_def)
  moreover have "at_at (fCovarianceMatrices s) (-1) 3 =
      map_option do_low_pt_hack (at_at (fCovarianceMatrices s) 0 3)"
    using t [where i = 0 and j = 0, THEN conjunct2, THEN conjunct2, THEN conjunct2, THEN conjunct2,
        THEN conjunct2, THEN conjunct1] I
    by simp
  ultimately show ?thesis
    using I g st by simp
qed

subsection \<open>Bin lookup and bin resolution\<close>

lemma scan_bins_snoc:
  "scan_bins (es @ [e]) x i b = (if x > e then int (i + length es) else scan_bins es x i b)"
  by (induction es arbitrary: i b) auto

lemma scan_bins_greatest:
  "scan_bins es x 0 (-1) =
     (if \<exists>k<length es. es ! k < x then int (Max {k. k < length es \<and> es ! k < x}) else -1)"
proof (induction es rule: rev_induct)
  case Nil
  show ?case by simp
next
  case (snoc e es)
  let ?S = "{k. k < length (es @ [e]) \<and> (es @ [e]) ! k < x}"
  show ?case
  proof (cases "e < x")
    case True
    have "Max ?S = length es"
      by (rule Max_eqI) (use True in auto)
    moreover have "\<exists>k<length (es @ [e]). (es @ [e]) ! k < x"
      using True by (intro exI[of _ "length es"]) simp
    ultimately show ?thesis using True by (simp add: scan_bins_snoc del: length_append)
  next
    case False
    have S: "?S = {k. k < length es \<and> es ! k < x}"
      using False by (auto simp: nth_append less_Suc_eq)
    have E: "(\<exists>k<length (es @ [e]). (es @ [e]) ! k < x) = (\<exists>k<length es. es ! k < x)"
      using False by (auto simp: nth_append less_Suc_eq)
    show ?thesis
      unfolding S E using False snoc by (simp add: scan_bins_snoc)
  qed
qed

lemma row_of_at_at: "row_of m p e = at_at m p e"
  by (simp add: row_of_def at_at_def split: option.splits)

lemma at_at_subscript: "at_at (subscript m k) p e = at_at m p e"
  by (simp add: at_at_def subscript_def split: option.splits)

lemma subscript_cached: "at_at m p e \<noteq> None \<Longrightarrow> subscript m p = m"
  by (auto simp: at_at_def subscript_def split: option.splits)

lemma getValidBins_hit:
  "at_at (fSmearingMatrices s) ptbin etabin \<noteq> None \<Longrightarrow>
   getValidBins s ptbin etabin = Some (Inr (ptbin, etabin), s)"
  by (subst getValidBins.simps) (auto simp: row_of_at_at at_at_subscript subscript_cached)

lemma getValidBins_zero:
  "at_at (fSmearingMatrices s) ptbin 0 = None \<Longrightarrow>
   getValidBins s ptbin 0 = Some (Inl logic_error, s\<lparr>fSmearingMatrices := subscript (fSmearingMatrices s) ptbin\<rparr>)"
  by (subst getValidBins.simps) (simp add: row_of_at_at at_at_subscript)

lemma getValidBins_miss:
  "at_at (fSmearingMatrices s) ptbin etabin = None \<Longrightarrow> etabin \<noteq> 0 \<Longrightarrow>
   getValidBins s ptbin etabin =
     getValidBins (s\<lparr>fSmearingMatrices := subscript (fSmearingMatrices s) ptbin,
                     fNBinMisses := fNBinMisses s + 1\<rparr>) ptbin (etabin - 1)"
  by (subst getValidBins.simps) (simp add: row_of_at_at at_at_subscript)


lemma getValidBins_returns:
  "\<exists>r s'. getValidBins s ptbin (int n) = Some (r, s') \<and> fNBinMisses s' - fNBinMisses s \<le> int n
      \<and> fNBinMisses s \<le> fNBinMisses s'"
proof (induction n arbitrary: s)
  case 0
  show ?case
    by (cases "at_at (fSmearingMatrices s) ptbin 0 = None")
       (auto simp: getValidBins_zero getValidBins_hit)
next
  case (Suc n)
  show ?case
  proof (cases "at_at (fSmearingMatrices s) ptbin (int (Suc n)) = None")
    case False
    then show ?thesis by (auto simp: getValidBins_hit)
  next
    case True
    let ?s = "s\<lparr>fSmearingMatrices := subscript (fSmearingMatrices s) ptbin,
                     fNBinMisses := fNBinMisses s + 1\<rparr>"
    have "getValidBins s ptbin (int (Suc n)) = getValidBins ?s ptbin (int n)"
      using getValidBins_miss [OF True] by simp
    with Suc [of ?s] show ?thesis by auto
  qed
qed

lemma getValidBins_result:
  "getValidBins s ptbin (int n) = Some (Inr (p, e), s') \<Longrightarrow>
     p = ptbin \<and> 0 \<le> e \<and> e \<le> int n \<and> at_at (fSmearingMatrices s) ptbin e \<noteq> None \<and>
     fNBinMisses s' = fNBinMisses s + (int n - e) \<and>
     (\<forall>e'. e < e' \<and> e' \<le> int n \<longrightarrow> at_at (fSmearingMatrices s) ptbin e' = None)"
proof (induction n arbitrary: s)
  case 0
  then show ?case
    by (cases "at_at (fSmearingMatrices s) ptbin 0 = None")
       (auto simp: getValidBins_zero getValidBins_hit)
next
  case (Suc n)
  show ?case
  proof (cases "at_at (fSmearingMatrices s) ptbin (int (Suc n)) = None")
    case False
    then show ?thesis using Suc.prems by (auto simp: getValidBins_hit)
  next
    case True
    let ?s = "s\<lparr>fSmearingMatrices := subscript (fSmearingMatrices s) ptbin,
                     fNBinMisses := fNBinMisses s + 1\<rparr>"
    have "getValidBins s ptbin (int (Suc n)) = getValidBins ?s ptbin (int n)"
      using getValidBins_miss [OF True] by simp
    with Suc.prems have "getValidBins ?s ptbin (int n) = Some (Inr (p, e), s')" by simp
    from Suc.IH [OF this]
    have ih: "p = ptbin" "0 \<le> e" "e \<le> int n" "at_at (fSmearingMatrices s) ptbin e \<noteq> None"
      "fNBinMisses s' = fNBinMisses s + 1 + (int n - e)"
      "\<And>e'. e < e' \<Longrightarrow> e' \<le> int n \<Longrightarrow> at_at (fSmearingMatrices s) ptbin e' = None"
      by (simp_all add: at_at_subscript)
    have "at_at (fSmearingMatrices s) ptbin e' = None" if "e < e'" "e' \<le> int (Suc n)" for e'
    proof (cases "e' = int (Suc n)")
      case True
      with \<open>at_at (fSmearingMatrices s) ptbin (int (Suc n)) = None\<close> show ?thesis by simp
    next
      case False
      with that have "e' \<le> int n" by simp
      with ih(6) that show ?thesis by simp
    qed
    with ih show ?thesis by simp
  qed
qed

lemma getValidBins_diverges:
  assumes "getValidBins s ptbin etabin = Some y"
  shows "\<not> (etabin < 0 \<and> (\<forall>e<0. at_at (fSmearingMatrices s) ptbin e = None))"
proof (rule getValidBins.raw_induct
    [where P = "\<lambda>s ptbin etabin y. \<not> (etabin < 0 \<and> (\<forall>e<0. at_at (fSmearingMatrices s) ptbin e = None))",
     OF _ assms])
  fix f :: "IPCovSmearing \<Rightarrow> int \<Rightarrow> int \<Rightarrow> ((error + int \<times> int) \<times> IPCovSmearing) option"
  fix s ptbin etabin y
  assume IH: "\<And>s ptbin etabin y. f s ptbin etabin = Some y \<Longrightarrow>
      \<not> (etabin < 0 \<and> (\<forall>e<0. at_at (fSmearingMatrices s) ptbin e = None))"
  assume eq: "(let s1 = s\<lparr>fSmearingMatrices := subscript (fSmearingMatrices s) ptbin\<rparr>;
          pt_mats = row_of (fSmearingMatrices s1) ptbin
      in if pt_mats etabin = None then
           (if etabin = 0 then Some (Inl logic_error, s1)
            else f (s1\<lparr>fNBinMisses := fNBinMisses s1 + 1\<rparr>) ptbin (etabin - 1))
         else Some (Inr (ptbin, etabin), s1)) = Some y"
  show "\<not> (etabin < 0 \<and> (\<forall>e<0. at_at (fSmearingMatrices s) ptbin e = None))"
  proof
    assume neg: "etabin < 0 \<and> (\<forall>e<0. at_at (fSmearingMatrices s) ptbin e = None)"
    let ?s = "s\<lparr>fSmearingMatrices := subscript (fSmearingMatrices s) ptbin\<rparr>"
    from neg eq have "f (?s\<lparr>fNBinMisses := fNBinMisses ?s + 1\<rparr>) ptbin (etabin - 1) = Some y"
      by (simp add: row_of_at_at at_at_subscript)
    from IH [OF this] neg show False
      by (simp add: at_at_subscript)
  qed
qed


lemma Init_edges:
  assumes "Init llt smear_mult (Some file_para) IPCovSmearing_new = Inr s"
  shows "ptbins s = [10, 20, 50, 100, 200, 250, 500, 750]"
    and "etabins s = [0.0, 0.4, 0.8, 1.05, 1.5, 1.7, 2.0, 2.25, 2.7]"
  using Init_new [OF assms, of 0 0] by simp_all

lemma below_8: "(i::nat) < 8 \<Longrightarrow> i \<in> {0, 1, 2, 3, 4, 5, 6, 7}"
  by auto

lemma below_9: "(i::nat) < 9 \<Longrightarrow> i \<in> {0, 1, 2, 3, 4, 5, 6, 7, 8}"
  by auto

lemma pt_edges_above:
  "(\<exists>k<length [10, 20, 50, 100, 200, 250, 500, 750 :: real].
      [10, 20, 50, 100, 200, 250, 500, 750] ! k < pt) = (10 < pt)"
  for pt :: real
proof
  assume "\<exists>k<length [10, 20, 50, 100, 200, 250, 500, 750 :: real].
      [10, 20, 50, 100, 200, 250, 500, 750] ! k < pt"
  then obtain k where k: "k < length [10, 20, 50, 100, 200, 250, 500, 750 :: real]"
    "[10, 20, 50, 100, 200, 250, 500, 750] ! k < pt" by blast
  from k(1) have "k < 8" by simp
  from below_8 [OF this] k(2) show "10 < pt" by auto
next
  assume "10 < pt"
  then show "\<exists>k<length [10, 20, 50, 100, 200, 250, 500, 750 :: real].
      [10, 20, 50, 100, 200, 250, 500, 750] ! k < pt"
    by (intro exI [of _ 0]) simp
qed

lemma eta_edges_above:
  "(\<exists>k<length [0.0, 0.4, 0.8, 1.05, 1.5, 1.7, 2.0, 2.25, 2.7 :: real].
      [0.0, 0.4, 0.8, 1.05, 1.5, 1.7, 2.0, 2.25, 2.7] ! k < x) = (0 < x)"
  for x :: real
proof
  assume "\<exists>k<length [0.0, 0.4, 0.8, 1.05, 1.5, 1.7, 2.0, 2.25, 2.7 :: real].
      [0.0, 0.4, 0.8, 1.05, 1.5, 1.7, 2.0, 2.25, 2.7] ! k < x"
  then obtain k where k: "k < length [0.0, 0.4, 0.8, 1.05, 1.5, 1.7, 2.0, 2.25, 2.7 :: real]"
    "[0.0, 0.4, 0.8, 1.05, 1.5, 1.7, 2.0, 2.25, 2.7] ! k < x" by blast
  from k(1) have "k < 9" by simp
  from below_9 [OF this] k(2) show "0 < x" by auto
next
  assume "0 < x"
  then show "\<exists>k<length [0.0, 0.4, 0.8, 1.05, 1.5, 1.7, 2.0, 2.25, 2.7 :: real].
      [0.0, 0.4, 0.8, 1.05, 1.5, 1.7, 2.0, 2.25, 2.7] ! k < x"
    by (intro exI [of _ 0]) simp
qed

lemma pt_edge_tie:
  "i < 8 \<Longrightarrow> scan_bins [10, 20, 50, 100, 200, 250, 500, 750] ([10, 20, 50, 100, 200, 250, 500, 750] ! i) 0 (-1) = int i - 1"
  by (drule below_8) auto

lemma eta_edge_tie:
  "j < 9 \<Longrightarrow> scan_bins [0.0, 0.4, 0.8, 1.05, 1.5, 1.7, 2.0, 2.25, 2.7]
      \<bar>[0.0, 0.4, 0.8, 1.05, 1.5, 1.7, 2.0, 2.25, 2.7] ! j\<bar> 0 (-1) = int j - 1"
  by (drule below_9) auto

text \<open>
  C4. After \<^verbatim>\<open>Init\<close> the pt bin of a value is the greatest index of an edge of
  [10,20,50,100,200,250,500,750] that the value exceeds, or -1 when it does not
  exceed 10; the eta bin is the same over [0.0,0.4,0.8,1.05,1.5,1.7,2.0,2.25,2.7]
  for the absolute value of eta. The comparison is strict: a value equal to the
  edge of index i is in bin i - 1. The pt 15 is in bin 0, the pt 5 in bin -1 and
  an eta of absolute value 0.9 in bin 2.
\<close>

theorem bin_lookup_greatest_edge:
  "Init llt smear_mult (Some file_para) IPCovSmearing_new = Inr s \<Longrightarrow>
   ptbins s = [10, 20, 50, 100, 200, 250, 500, 750] \<and>
   etabins s = [0.0, 0.4, 0.8, 1.05, 1.5, 1.7, 2.0, 2.25, 2.7] \<and>
   ptbin_of s pt =
     (if 10 < pt then int (Max {i. i < length (ptbins s) \<and> ptbins s ! i < pt}) else -1) \<and>
   etabin_of s eta =
     (if 0 < \<bar>eta\<bar> then int (Max {i. i < length (etabins s) \<and> etabins s ! i < \<bar>eta\<bar>}) else -1) \<and>
   (i < length (ptbins s) \<longrightarrow> ptbin_of s (ptbins s ! i) = int i - 1) \<and>
   (j < length (etabins s) \<longrightarrow> etabin_of s (etabins s ! j) = int j - 1) \<and>
   ptbin_of s 15 = 0 \<and> ptbin_of s 5 = -1 \<and> etabin_of s 0.9 = 2 \<and> etabin_of s (-0.9) = 2"
proof -
  assume I: "Init llt smear_mult (Some file_para) IPCovSmearing_new = Inr s"
  note e = Init_edges [OF I]
  have "ptbin_of s pt =
     (if 10 < pt then int (Max {i. i < length (ptbins s) \<and> ptbins s ! i < pt}) else -1)"
    unfolding ptbin_of_def scan_bins_greatest e pt_edges_above ..
  moreover have "etabin_of s eta =
     (if 0 < \<bar>eta\<bar> then int (Max {i. i < length (etabins s) \<and> etabins s ! i < \<bar>eta\<bar>}) else -1)"
    unfolding etabin_of_def scan_bins_greatest e eta_edges_above ..
  moreover have "i < length (ptbins s) \<longrightarrow> ptbin_of s (ptbins s ! i) = int i - 1"
    unfolding ptbin_of_def e using pt_edge_tie [of i] by simp
  moreover have "j < length (etabins s) \<longrightarrow> etabin_of s (etabins s ! j) = int j - 1"
    unfolding etabin_of_def e using eta_edge_tie [of j] by simp
  moreover have "ptbin_of s 15 = 0" "ptbin_of s 5 = -1" "etabin_of s 0.9 = 2" "etabin_of s (-0.9) = 2"
    by (simp_all add: ptbin_of_def etabin_of_def e)
  ultimately show ?thesis using e by simp
qed

theorem bin_lookup_greatest_edge_witness:
  "isl (Init Eigen_llt 1 (Some identity_file) IPCovSmearing_new) = False \<and>
   ptbin_of (projr (Init Eigen_llt 1 (Some identity_file) IPCovSmearing_new)) 60 = 2 \<and>
   etabin_of (projr (Init Eigen_llt 1 (Some identity_file) IPCovSmearing_new)) 0 = -1 \<and>
   ptbin_of (projr (Init Eigen_llt 1 (Some identity_file) IPCovSmearing_new)) 50 = 1 \<and>
   etabin_of (projr (Init Eigen_llt 1 (Some identity_file) IPCovSmearing_new)) 1.05 = 2"
proof -
  obtain s where I: "Init Eigen_llt 1 (Some identity_file) IPCovSmearing_new = Inr s"
    by (simp add: Init_def Let_def)
  note t = bin_lookup_greatest_edge [OF I]
  have e: "ptbins s = [10, 20, 50, 100, 200, 250, 500, 750]"
    "etabins s = [0.0, 0.4, 0.8, 1.05, 1.5, 1.7, 2.0, 2.25, 2.7]"
    using t [of 0 0 0 0] by simp_all
  have "ptbin_of s 50 = 1"
    using t [of 0 0 2 0] e by simp
  moreover have "etabin_of s 1.05 = 2"
    using t [of 0 0 0 3] e by simp
  moreover have "ptbin_of s 60 = 2" "etabin_of s 0 = -1"
    by (simp_all add: ptbin_of_def etabin_of_def e)
  ultimately show ?thesis using I by simp
qed


lemma Init_no_negative_eta:
  assumes "Init llt smear_mult (Some file_para) IPCovSmearing_new = Inr s" "e < 0"
  shows "at_at (fSmearingMatrices s) p e = None"
  using Init_new [OF assms(1), of p e] assms(2) by simp

lemma Process_track_diverges:
  assumes "deref h track = Some trk" "fArray trk = p # ps" "deref h p = Some particle"
    "fArray particle = []" "Pt (Momentum particle) \<noteq> 0"
    "getValidBins s (ptbin_of s (Pt (Momentum particle))) (etabin_of s (Eta (Momentum particle))) = None"
  shows "Process_track idx draws track (h, s) = None"
  using assms by (simp add: Process_track_def Let_def)

text \<open>
  C1. For an eta bin that is not negative: when a smearing matrix is cached
  for exactly the requested pair, \<^verbatim>\<open>getValidBins\<close> returns the pair and leaves the
  module, the counter of bin misses included, as it was; when none is cached
  and the eta bin is positive, the result is that of the call for the next lower
  eta bin, made with the counter increased by exactly one; when none is cached
  and the eta bin is 0, the call ends in the logic error. A returned pair has
  the requested pt bin and a cached matrix, and the counter has grown by the
  number of eta bins stepped down.
\<close>

theorem getValidBins_fallback:
  "0 \<le> etabin \<Longrightarrow>
   (at_at (fSmearingMatrices s) ptbin etabin \<noteq> None \<longrightarrow>
      getValidBins s ptbin etabin = Some (Inr (ptbin, etabin), s)) \<and>
   (at_at (fSmearingMatrices s) ptbin etabin = None \<and> 0 < etabin \<longrightarrow>
      getValidBins s ptbin etabin =
        getValidBins (s\<lparr>fSmearingMatrices := subscript (fSmearingMatrices s) ptbin,
                        fNBinMisses := fNBinMisses s + 1\<rparr>) ptbin (etabin - 1)) \<and>
   (at_at (fSmearingMatrices s) ptbin etabin = None \<and> etabin = 0 \<longrightarrow>
      getValidBins s ptbin etabin =
        Some (Inl logic_error, s\<lparr>fSmearingMatrices := subscript (fSmearingMatrices s) ptbin\<rparr>)) \<and>
   (getValidBins s ptbin etabin = Some (Inr (p, e), s') \<longrightarrow>
      p = ptbin \<and> 0 \<le> e \<and> e \<le> etabin \<and> at_at (fSmearingMatrices s) ptbin e \<noteq> None \<and>
      fNBinMisses s' = fNBinMisses s + (etabin - e))"
proof -
  assume nonneg: "0 \<le> etabin"
  have "getValidBins s ptbin etabin = Some (Inr (ptbin, etabin), s)"
    if "at_at (fSmearingMatrices s) ptbin etabin \<noteq> None"
    using that by (rule getValidBins_hit)
  moreover have "getValidBins s ptbin etabin =
        getValidBins (s\<lparr>fSmearingMatrices := subscript (fSmearingMatrices s) ptbin,
                        fNBinMisses := fNBinMisses s + 1\<rparr>) ptbin (etabin - 1)"
    if "at_at (fSmearingMatrices s) ptbin etabin = None \<and> 0 < etabin"
    using that by (intro getValidBins_miss) simp_all
  moreover have "getValidBins s ptbin etabin =
        Some (Inl logic_error, s\<lparr>fSmearingMatrices := subscript (fSmearingMatrices s) ptbin\<rparr>)"
    if "at_at (fSmearingMatrices s) ptbin etabin = None \<and> etabin = 0"
    using that getValidBins_zero [of s ptbin] by auto
  moreover have "p = ptbin \<and> 0 \<le> e \<and> e \<le> etabin \<and> at_at (fSmearingMatrices s) ptbin e \<noteq> None \<and>
      fNBinMisses s' = fNBinMisses s + (etabin - e)"
    if "getValidBins s ptbin etabin = Some (Inr (p, e), s')"
  proof -
    from nonneg obtain n where n: "etabin = int n"
      using nonneg_int_cases by blast
    from getValidBins_result [of s ptbin n p e s'] that n show ?thesis by simp
  qed
  ultimately show ?thesis by blast
qed

theorem getValidBins_fallback_witness:
  "at_at (fSmearingMatrices one_bin_module) 1 2 = None \<and>
   at_at (fSmearingMatrices one_bin_module) 1 1 \<noteq> None \<and>
   getValidBins one_bin_module 1 2 =
     Some (Inr (1, 1), one_bin_module\<lparr>fNBinMisses := 1\<rparr>) \<and>
   getValidBins one_bin_module 1 1 = Some (Inr (1, 1), one_bin_module) \<and>
   getValidBins one_bin_module 1 0 = Some (Inl logic_error, one_bin_module)"
proof -
  have c: "at_at (fSmearingMatrices one_bin_module) 1 2 = None"
    "at_at (fSmearingMatrices one_bin_module) 1 1 \<noteq> None"
    "at_at (fSmearingMatrices one_bin_module) 1 0 = None"
    by (simp_all add: one_bin_module_def at_at_def)
  have sub: "subscript (fSmearingMatrices one_bin_module) 1 = fSmearingMatrices one_bin_module"
    by (simp add: one_bin_module_def subscript_def)
  let ?s = "one_bin_module\<lparr>fNBinMisses := 1\<rparr>"
  have c': "at_at (fSmearingMatrices ?s) 1 1 \<noteq> None"
    using c by simp
  have "getValidBins one_bin_module 1 2 = getValidBins ?s 1 1"
    using getValidBins_fallback [of 2 one_bin_module 1 0 0 one_bin_module] c sub
    by (simp add: one_bin_module_def)
  moreover have "getValidBins ?s 1 1 = Some (Inr (1, 1), ?s)"
    using getValidBins_fallback [of 1 ?s 1 0 0 one_bin_module] c' by simp
  moreover have "getValidBins one_bin_module 1 1 = Some (Inr (1, 1), one_bin_module)"
    using getValidBins_fallback [of 1 one_bin_module 1 0 0 one_bin_module] c by simp
  moreover have "getValidBins one_bin_module 1 0 = Some (Inl logic_error, one_bin_module)"
    using getValidBins_fallback [of 0 one_bin_module 1 0 0 one_bin_module] c sub by simp
  ultimately show ?thesis using c by simp
qed

text \<open>
  C10. For an eta bin that is not negative \<^verbatim>\<open>getValidBins\<close> ends, with a pair or
  with the logic error, after at most that many fallback steps. For a negative
  eta bin, when no matrix is cached under a negative eta bin, it does not end.
  After \<^verbatim>\<open>Init\<close> no matrix is cached under a negative eta bin and an eta of 0 has
  eta bin -1, so that the pass of \<^verbatim>\<open>Process\<close> for a track whose particle has eta
  0 does not end.
\<close>

theorem getValidBins_ends_only_for_nonnegative_eta_bin:
  "(0 \<le> etabin \<longrightarrow>
      (\<exists>r s'. getValidBins s ptbin etabin = Some (r, s') \<and>
         0 \<le> fNBinMisses s' - fNBinMisses s \<and> fNBinMisses s' - fNBinMisses s \<le> etabin)) \<and>
   (etabin < 0 \<and> (\<forall>e<0. at_at (fSmearingMatrices s) ptbin e = None) \<longrightarrow>
      getValidBins s ptbin etabin = None) \<and>
   (Init llt smear_mult (Some file_para) IPCovSmearing_new = Inr s \<longrightarrow>
      (\<forall>e<0. at_at (fSmearingMatrices s) ptbin e = None) \<and>
      etabin_of s 0 = -1 \<and>
      getValidBins s ptbin (etabin_of s 0) = None \<and>
      (deref h track = Some trk \<and> fArray trk = p # ps \<and> deref h p = Some particle \<and>
       fArray particle = [] \<and> Pt (Momentum particle) \<noteq> 0 \<and> Eta (Momentum particle) = 0 \<longrightarrow>
         Process_track idx draws track (h, s) = None))"
proof (intro conjI impI)
  show "\<exists>r s'. getValidBins s ptbin etabin = Some (r, s') \<and>
         0 \<le> fNBinMisses s' - fNBinMisses s \<and> fNBinMisses s' - fNBinMisses s \<le> etabin"
    if "0 \<le> etabin"
  proof -
    from that obtain n where n: "etabin = int n"
      using nonneg_int_cases by blast
    from getValidBins_returns [of s ptbin n] n show ?thesis by auto
  qed
  show "getValidBins s ptbin etabin = None"
    if "etabin < 0 \<and> (\<forall>e<0. at_at (fSmearingMatrices s) ptbin e = None)"
    using getValidBins_diverges [of s ptbin etabin] that
    by (cases "getValidBins s ptbin etabin") auto
next
  assume I: "Init llt smear_mult (Some file_para) IPCovSmearing_new = Inr s"
  show neg: "\<forall>e<0. at_at (fSmearingMatrices s) ptbin e = None"
    using Init_no_negative_eta [OF I] by blast
  show bin: "etabin_of s 0 = -1"
    by (simp add: etabin_of_def Init_edges [OF I])
  show none: "getValidBins s ptbin (etabin_of s 0) = None"
    using getValidBins_diverges [of s ptbin "-1"] neg bin
    by (cases "getValidBins s ptbin (-1)") auto
  show "Process_track idx draws track (h, s) = None"
    if "deref h track = Some trk \<and> fArray trk = p # ps \<and> deref h p = Some particle \<and>
       fArray particle = [] \<and> Pt (Momentum particle) \<noteq> 0 \<and> Eta (Momentum particle) = 0"
  proof -
    have "getValidBins s (ptbin_of s (Pt (Momentum particle))) (etabin_of s 0) = None"
      using getValidBins_diverges [of s "ptbin_of s (Pt (Momentum particle))" "-1"]
        Init_no_negative_eta [OF I] bin
      by (cases "getValidBins s (ptbin_of s (Pt (Momentum particle))) (-1)") auto
    with that show ?thesis
      by (intro Process_track_diverges [of h track trk p ps particle]) simp_all
  qed
qed


theorem getValidBins_ends_only_for_nonnegative_eta_bin_witness:
  "getValidBins one_bin_module 1 2 \<noteq> None \<and>
   getValidBins one_bin_module 1 (-1) = None \<and>
   isl (Init Eigen_llt 1 (Some identity_file) IPCovSmearing_new) = False \<and>
   getValidBins (projr (Init Eigen_llt 1 (Some identity_file) IPCovSmearing_new)) 0 (-1) = None \<and>
   Process_track triangle_idx zero_draws 1
     (example_store 1 0, projr (Init Eigen_llt 1 (Some identity_file) IPCovSmearing_new)) = None"
proof -
  obtain s where I: "Init Eigen_llt 1 (Some identity_file) IPCovSmearing_new = Inr s"
    by (simp add: Init_def Let_def)
  have neg: "\<forall>e<0. at_at (fSmearingMatrices one_bin_module) 1 e = None"
    by (simp add: one_bin_module_def at_at_def)
  have "getValidBins one_bin_module 1 2 \<noteq> None"
    using getValidBins_ends_only_for_nonnegative_eta_bin
      [where etabin = 2 and s = one_bin_module and ptbin = 1, THEN conjunct1]
    by auto
  moreover have "getValidBins one_bin_module 1 (-1) = None"
    using getValidBins_ends_only_for_nonnegative_eta_bin
      [where etabin = "-1" and s = one_bin_module and ptbin = 1, THEN conjunct2, THEN conjunct1] neg
    by simp
  moreover note t = getValidBins_ends_only_for_nonnegative_eta_bin
      [where s = s and ptbin = 0 and llt = Eigen_llt and smear_mult = 1 and file_para = identity_file
        and h = "example_store 1 0" and track = 1 and trk = "example_store 1 0 ! 1" and p = 0
        and ps = "[]" and particle = "example_store 1 0 ! 0" and idx = triangle_idx
        and draws = zero_draws and etabin = 0,
        THEN conjunct2, THEN conjunct2]
  moreover have "getValidBins s 0 (-1) = None"
  proof -
    from t I have a: "etabin_of s 0 = -1" and b: "getValidBins s 0 (etabin_of s 0) = None"
      by blast+
    from b show ?thesis unfolding a .
  qed
  moreover have "Process_track triangle_idx zero_draws 1 (example_store 1 0, s) = None"
    using t I by (simp add: example_store_def deref_def blank_candidate_def)
  ultimately show ?thesis using I by simp
qed

subsection \<open>Failed factorisations\<close>

lemma negative_cov_pivot: "negative_cov 0 0 = -1"
  by (simp add: negative_cov_def mat_scale_def convert_units_to_gev_entry)

lemma Eigen_llt_negative_cov: "m_info (Eigen_llt negative_cov) = NumericalIssue"
  by (simp add: Eigen_llt_def negative_cov_pivot)

lemma get_cov_matrix_negative_file:
  "get_cov_matrix negative_file 0 0 =
     Inr (convert_units_to_gev
       (\<lambda>iii jjj. if iii < 5 \<and> jjj < 5 then (if iii = jjj then -1 else 0) else 0))"
  by (simp add: get_cov_matrix_def negative_file_def)

text \<open>
  C3, as the code has it. After \<^verbatim>\<open>Init\<close> a bin of the two loops is missing from
  the caches, with a line on the diagnostics stream, exactly when the file has
  no matrix under its name. A matrix that the file has is stored, and with it
  the lower triangle of whatever the factorisation routine returns, whatever
  its status; \<^verbatim>\<open>getValidBins\<close> then resolves the bin to itself.
\<close>

theorem Init_drops_only_absent_bins:
  "Init llt smear_mult (Some file_para) IPCovSmearing_new = Inr s \<Longrightarrow>
   -1 \<le> ipt \<and> ipt \<le> 7 \<and> 0 \<le> ieta \<and> ieta \<le> 8 \<Longrightarrow>
   (case file_para (covmat_name (if ipt = -1 then 0 else ipt) ieta) of
      None \<Rightarrow>
        at_at (fSmearingMatrices s) ipt ieta = None \<and>
        at_at (fCovarianceMatrices s) ipt ieta = None \<and>
        no_smearing_defined ipt ieta \<in> set (sout s)
    | Some cptr \<Rightarrow>
        (\<exists>m. get_cov_matrix file_para ipt ieta = Inr m \<and>
           at_at (fCovarianceMatrices s) ipt ieta = Some (mat_scale m smear_mult) \<and>
           at_at (fSmearingMatrices s) ipt ieta = Some (matrixL (llt (mat_scale m smear_mult))) \<and>
           no_smearing_defined ipt ieta \<notin> set (sout s) \<and>
           getValidBins s ipt ieta = Some (Inr (ipt, ieta), s)))"
proof -
  assume I: "Init llt smear_mult (Some file_para) IPCovSmearing_new = Inr s"
    and r: "-1 \<le> ipt \<and> ipt \<le> 7 \<and> 0 \<le> ieta \<and> ieta \<le> 8"
  note n = Init_new [OF I, of ipt ieta]
  show ?thesis
  proof (cases "file_para (covmat_name (if ipt = -1 then 0 else ipt) ieta)")
    case None
    then have g: "get_cov_matrix file_para ipt ieta = Inl invalid_argument"
      by (simp add: get_cov_matrix_def Let_def)
    have "no_smearing_defined ipt ieta \<in> set (sout s)"
      using n r g by auto
    with n r g None show ?thesis by (simp add: loaded_def)
  next
    case (Some cptr)
    then obtain m where g: "get_cov_matrix file_para ipt ieta = Inr m"
      by (simp add: get_cov_matrix_def Let_def)
    have d: "no_smearing_defined ipt ieta \<notin> set (sout s)"
      using n g by auto
    have c: "at_at (fSmearingMatrices s) ipt ieta = Some (matrixL (llt (mat_scale m smear_mult)))"
      using n r g by (simp add: loaded_def)
    then have "getValidBins s ipt ieta = Some (Inr (ipt, ieta), s)"
      by (intro getValidBins_hit) simp
    with n r g d c Some show ?thesis by (simp add: loaded_def)
  qed
qed

theorem Init_drops_only_absent_bins_witness:
  "isl (Init Eigen_llt 1 (Some identity_file) IPCovSmearing_new) = False \<and>
   at_at (fSmearingMatrices (projr (Init Eigen_llt 1 (Some identity_file) IPCovSmearing_new))) 0 3 \<noteq> None \<and>
   identity_file (covmat_name 0 3) \<noteq> None \<and>
   getValidBins (projr (Init Eigen_llt 1 (Some identity_file) IPCovSmearing_new)) 0 3 =
     Some (Inr (0, 3), projr (Init Eigen_llt 1 (Some identity_file) IPCovSmearing_new))"
proof -
  obtain s where I: "Init Eigen_llt 1 (Some identity_file) IPCovSmearing_new = Inr s"
    by (simp add: Init_def Let_def)
  have f: "identity_file (covmat_name 0 3) = Some Identity"
    by (simp add: identity_file_def)
  have "at_at (fSmearingMatrices s) 0 3 \<noteq> None \<and> getValidBins s 0 3 = Some (Inr (0, 3), s)"
    using Init_drops_only_absent_bins [OF I, of 0 3] f by auto
  then show ?thesis using I f by simp
qed

text \<open>
  The claim C3 fails: the matrix of the bin (0, 0) of \<open>negative_file\<close> has a
  negative first pivot, its factorisation reports a numerical issue, and the bin
  is nevertheless in both caches, without a diagnostic, and resolved to itself.
\<close>

theorem Init_keeps_bin_of_failed_factorisation:
  "m_info (Eigen_llt negative_cov) = NumericalIssue \<and>
   isl (Init Eigen_llt 1 (Some negative_file) IPCovSmearing_new) = False \<and>
   at_at (fCovarianceMatrices (projr (Init Eigen_llt 1 (Some negative_file) IPCovSmearing_new))) 0 0 =
     Some negative_cov \<and>
   at_at (fSmearingMatrices (projr (Init Eigen_llt 1 (Some negative_file) IPCovSmearing_new))) 0 0 =
     Some (matrixL (Eigen_llt negative_cov)) \<and>
   no_smearing_defined 0 0 \<notin> set (sout (projr (Init Eigen_llt 1 (Some negative_file) IPCovSmearing_new))) \<and>
   getValidBins (projr (Init Eigen_llt 1 (Some negative_file) IPCovSmearing_new)) 0 0 =
     Some (Inr (0, 0), projr (Init Eigen_llt 1 (Some negative_file) IPCovSmearing_new))"
proof -
  obtain s where I: "Init Eigen_llt 1 (Some negative_file) IPCovSmearing_new = Inr s"
    by (simp add: Init_def Let_def)
  note n = Init_new [OF I, of 0 0]
  note g = get_cov_matrix_negative_file
  have c: "at_at (fSmearingMatrices s) 0 0 = Some (matrixL (Eigen_llt negative_cov))"
    using n g by (simp add: loaded_def negative_cov_def)
  have v: "at_at (fCovarianceMatrices s) 0 0 = Some negative_cov"
    using n g by (simp add: loaded_def negative_cov_def)
  have d: "no_smearing_defined 0 0 \<notin> set (sout s)"
    using n g by auto
  have "getValidBins s 0 0 = Some (Inr (0, 0), s)"
    using c by (intro getValidBins_hit) simp
  with c v d I Eigen_llt_negative_cov show ?thesis by simp
qed

subsection \<open>One pass of the loop body\<close>

lemma forward_parameters_entries:
  "forward_parameters trk particle D0 =
     (Xd trk * Py (Momentum particle) - Yd trk * Px (Momentum particle)) / Pt (Momentum particle)"
  "forward_parameters trk particle Z0 = Zd trk"
  "forward_parameters trk particle PHI = Phi (Momentum particle)"
  "forward_parameters trk particle THETA = 2 * arctan (exp (- Eta (Momentum particle)))"
  "forward_parameters trk particle QOVERP =
     real_of_int (Charge particle) / (Pt (Momentum particle) * cosh (Eta (Momentum particle)))"
  by (simp_all add: forward_parameters_def track_vector_def Let_def D0_def Z0_def PHI_def THETA_def
      QOVERP_def)

lemma getValidBins_frame:
  assumes "getValidBins s ptbin etabin = Some y"
  shows "fRandomGenerator (snd y) = fRandomGenerator s \<and>
         fCovarianceMatrices (snd y) = fCovarianceMatrices s \<and>
         fOutputArray (snd y) = fOutputArray s \<and>
         (\<forall>p e. at_at (fSmearingMatrices (snd y)) p e = at_at (fSmearingMatrices s) p e)"
proof (rule getValidBins.raw_induct
    [where P = "\<lambda>s ptbin etabin y. fRandomGenerator (snd y) = fRandomGenerator s \<and>
         fCovarianceMatrices (snd y) = fCovarianceMatrices s \<and>
         fOutputArray (snd y) = fOutputArray s \<and>
         (\<forall>p e. at_at (fSmearingMatrices (snd y)) p e = at_at (fSmearingMatrices s) p e)",
     OF _ assms])
  fix f :: "IPCovSmearing \<Rightarrow> int \<Rightarrow> int \<Rightarrow> ((error + int \<times> int) \<times> IPCovSmearing) option"
  fix s ptbin etabin y
  assume IH: "\<And>s ptbin etabin y. f s ptbin etabin = Some y \<Longrightarrow>
      fRandomGenerator (snd y) = fRandomGenerator s \<and>
         fCovarianceMatrices (snd y) = fCovarianceMatrices s \<and>
         fOutputArray (snd y) = fOutputArray s \<and>
         (\<forall>p e. at_at (fSmearingMatrices (snd y)) p e = at_at (fSmearingMatrices s) p e)"
  assume eq: "(let s1 = s\<lparr>fSmearingMatrices := subscript (fSmearingMatrices s) ptbin\<rparr>;
          pt_mats = row_of (fSmearingMatrices s1) ptbin
      in if pt_mats etabin = None then
           (if etabin = 0 then Some (Inl logic_error, s1)
            else f (s1\<lparr>fNBinMisses := fNBinMisses s1 + 1\<rparr>) ptbin (etabin - 1))
         else Some (Inr (ptbin, etabin), s1)) = Some y"
  let ?s = "s\<lparr>fSmearingMatrices := subscript (fSmearingMatrices s) ptbin\<rparr>"
  show "fRandomGenerator (snd y) = fRandomGenerator s \<and>
         fCovarianceMatrices (snd y) = fCovarianceMatrices s \<and>
         fOutputArray (snd y) = fOutputArray s \<and>
         (\<forall>p e. at_at (fSmearingMatrices (snd y)) p e = at_at (fSmearingMatrices s) p e)"
  proof (cases "row_of (fSmearingMatrices ?s) ptbin etabin = None \<and> etabin \<noteq> 0")
    case True
    with eq have "f (?s\<lparr>fNBinMisses := fNBinMisses ?s + 1\<rparr>) ptbin (etabin - 1) = Some y"
      by (simp add: Let_def)
    from IH [OF this] show ?thesis by (simp add: at_at_subscript)
  next
    case False
    with eq have "snd y = ?s"
      by (auto simp: Let_def split: if_splits)
    then show ?thesis by (simp add: at_at_subscript)
  qed
qed

lemma Process_track_resolved:
  assumes "deref h track = Some trk" "fArray trk = p # ps" "deref h p = Some particle"
    "fArray particle = []" "Pt (Momentum particle) \<noteq> 0"
    and "getValidBins s (ptbin_of s (Pt (Momentum particle))) (etabin_of s (Eta (Momentum particle))) =
      Some (Inr (pb, eb), s1)"
    and "at_at (fSmearingMatrices s1) pb eb = Some L"
    and "at_at (fCovarianceMatrices s1) pb eb = Some cov"
  shows "Process_track idx draws track (h, s) =
     (case fill_smeared_track idx track particle
             (vec_add (mat_vec L (draws (fRandomGenerator s1))) (forward_parameters trk particle))
             cov trk of
        Inl e \<Rightarrow> Some (Inl e)
      | Inr c \<Rightarrow>
          Some (Inr (h @ [c],
            s1\<lparr>fRandomGenerator := Suc (fRandomGenerator s1),
               fOutputArray := fOutputArray s1 @ [length h]\<rparr>)))"
  using assms
  by (simp add: Process_track_def Let_def getRandomVector_def Clone_def split: sum.splits)

lemma Process_track_Inr:
  assumes "Process_track idx draws track (h, s) = Some (Inr (h', s'))"
  shows "\<exists>trk p ps particle pb eb s1 L cov c.
     deref h track = Some trk \<and> fArray trk = p # ps \<and> deref h p = Some particle \<and>
     fArray particle = [] \<and> Pt (Momentum particle) \<noteq> 0 \<and>
     getValidBins s (ptbin_of s (Pt (Momentum particle))) (etabin_of s (Eta (Momentum particle))) =
      Some (Inr (pb, eb), s1) \<and>
     at_at (fSmearingMatrices s1) pb eb = Some L \<and>
     at_at (fCovarianceMatrices s1) pb eb = Some cov \<and>
     fill_smeared_track idx track particle
             (vec_add (mat_vec L (draws (fRandomGenerator s1))) (forward_parameters trk particle))
             cov trk = Inr c \<and>
     h' = h @ [c] \<and>
     s' = s1\<lparr>fRandomGenerator := Suc (fRandomGenerator s1),
               fOutputArray := fOutputArray s1 @ [length h]\<rparr>"
  using assms
  by (auto simp: Process_track_def Let_def getRandomVector_def Clone_def
      split: option.splits list.splits sum.splits if_splits prod.splits)


lemma fill_smeared_track_fields:
  assumes "fill_smeared_track idx track particle smeared cov c0 = Inr c"
  shows "ge_zero (divide_double (real_of_int (Charge particle))
            (smeared QOVERP * cosh (Eta (Momentum particle))))"
    and "NotFinite c =
      (if is_finite (divide_double (real_of_int (Charge particle))
                       (smeared QOVERP * cosh (Eta (Momentum particle)))) \<and>
          is_finite (minus_double (log_double (tan_double (smeared THETA / 2))))
       then None
       else Some (abs_double (divide_double (real_of_int (Charge particle))
                    (smeared QOVERP * cosh (Eta (Momentum particle)))),
                  minus_double (log_double (tan_double (smeared THETA / 2)))))"
    and "Momentum c =
      SetPtEtaPhiM
        (finite_part (divide_double (real_of_int (Charge particle))
           (smeared QOVERP * cosh (Eta (Momentum particle)))))
        (finite_part (minus_double (log_double (tan_double (smeared THETA / 2)))))
        (smeared PHI) (M (Momentum particle))"
    and "Xd c = smeared D0 *
      cos (Phi (Momentum particle) - pi / 2 + (smeared PHI - Phi (Momentum particle)))"
    and "Yd c = smeared D0 *
      sin (Phi (Momentum particle) - pi / 2 + (smeared PHI - Phi (Momentum particle)))"
    and "Zd c = smeared Z0"
    and "Dxy c = smeared D0"
    and "trkPar c = (\<lambda>iii. if iii < 5 then smeared iii else trkPar c0 iii)"
    and "trkCov c = set_covariance idx (trkCov c0) cov"
    and "fArray c = [track]"
    and "Charge c = Charge c0"
  using assms
  by (auto simp: fill_smeared_track_def Let_def split: if_splits)

lemma fill_smeared_track_returns:
  assumes "ge_zero (divide_double (real_of_int (Charge particle))
            (smeared QOVERP * cosh (Eta (Momentum particle))))"
  shows "\<exists>c. fill_smeared_track idx track particle smeared cov c0 = Inr c"
  using assms by (simp add: fill_smeared_track_def Let_def)

lemma fill_smeared_track_fails:
  assumes "\<not> ge_zero (divide_double (real_of_int (Charge particle))
            (smeared QOVERP * cosh (Eta (Momentum particle))))"
  shows "fill_smeared_track idx track particle smeared cov c0 = Inl assertion_failed"
  using assms by (simp add: fill_smeared_track_def Let_def)

lemma ge_zero_cases: "ge_zero d = (\<not> is_negative d \<and> d \<noteq> NaN)"
  by (cases d) auto

lemma abs_double_ge_zero: "ge_zero d \<Longrightarrow> abs_double d = d"
  by (cases d) auto

lemma zero_noise: "\<forall>i<5. r i = 0 \<Longrightarrow> vec_add (mat_vec L r) v = v"
  by (intro ext) (simp add: vec_add_def mat_vec_def sum5_def)

lemma half_theta: "(2 * arctan x) / 2 = arctan x"
  by simp

lemma eta_of_theta: "minus_double (log_double (tan_double (arctan (exp (- eta))))) = Finite eta"
  by (simp add: tan_double_def cos_arctan_not_zero tan_arctan)

lemma fill_zero_noise:
  assumes q: "Charge particle \<noteq> 0" and pt: "0 < Pt (Momentum particle)"
  shows "\<exists>c. fill_smeared_track idx track particle (forward_parameters trk particle) cov c0 = Inr c \<and>
     Momentum c = Momentum particle \<and> Zd c = Zd trk \<and>
     Dxy c = (Xd trk * Py (Momentum particle) - Yd trk * Px (Momentum particle)) / Pt (Momentum particle) \<and>
     Xd c = Dxy c * cos (Phi (Momentum particle) - pi / 2) \<and>
     Yd c = Dxy c * sin (Phi (Momentum particle) - pi / 2) \<and>
     NotFinite c = None"
proof -
  let ?f = "forward_parameters trk particle"
  let ?eta = "Eta (Momentum particle)"
  note fe = forward_parameters_entries [of trk particle]
  have ch: "cosh ?eta \<noteq> 0"
    using cosh_real_pos [of ?eta] by simp
  have prod: "?f QOVERP * cosh ?eta = real_of_int (Charge particle) / Pt (Momentum particle)"
    using ch pt by (simp add: fe)
  have nz: "?f QOVERP * cosh ?eta \<noteq> 0"
    unfolding prod using q pt by simp
  have "real_of_int (Charge particle) / (?f QOVERP * cosh ?eta) = Pt (Momentum particle)"
    unfolding prod using q pt by simp
  with nz have rec: "divide_double (real_of_int (Charge particle)) (?f QOVERP * cosh ?eta) =
      Finite (Pt (Momentum particle))"
    by (simp add: divide_double_def)
  have th: "?f THETA / 2 = arctan (exp (- ?eta))"
    by (simp add: fe)
  have t: "minus_double (log_double (tan_double (?f THETA / 2))) = Finite ?eta"
    unfolding th by (rule eta_of_theta)
  have "\<exists>c. fill_smeared_track idx track particle ?f cov c0 = Inr c"
    using pt by (intro fill_smeared_track_returns) (simp add: rec)
  then obtain c where r: "fill_smeared_track idx track particle ?f cov c0 = Inr c" ..
  note f = fill_smeared_track_fields [OF r]
  have "Momentum c = Momentum particle"
    unfolding f(3) rec t using pt by (simp add: SetPtEtaPhiM_def fe)
  moreover have "Zd c = Zd trk" "Dxy c = (Xd trk * Py (Momentum particle) - Yd trk * Px (Momentum particle)) / Pt (Momentum particle)"
    by (simp_all add: f(6,7) fe)
  moreover have "Xd c = Dxy c * cos (Phi (Momentum particle) - pi / 2)"
    "Yd c = Dxy c * sin (Phi (Momentum particle) - pi / 2)"
    by (simp_all add: f(4,5,7) fe)
  moreover have "NotFinite c = None"
    unfolding f(2) rec t by simp
  ultimately show ?thesis using r by blast
qed

lemma perigee_consistency:
  fixes xd yd phi pt :: real
  assumes pt: "0 < pt"
  defines "d0 \<equiv> (xd * (pt * sin phi) - yd * (pt * cos phi)) / pt"
  shows "(d0 * cos (phi - pi / 2) = xd \<and> d0 * sin (phi - pi / 2) = yd) =
         (xd * (pt * cos phi) + yd * (pt * sin phi) = 0)"
proof -
  let ?k = "xd * cos phi + yd * sin phi"
  have d: "d0 = xd * sin phi - yd * cos phi"
    unfolding d0_def using pt by (simp add: field_simps)
  have cs: "cos (phi - pi / 2) = sin phi" "sin (phi - pi / 2) = - cos phi"
    by (simp_all add: cos_diff sin_diff)
  have one: "(sin phi)\<^sup>2 = 1 - (cos phi)\<^sup>2"
    by (rule sin_squared_eq)
  have x: "d0 * cos (phi - pi / 2) = xd - cos phi * ?k"
    unfolding d cs by (simp add: algebra_simps power2_eq_square [symmetric] one)
  have one': "(cos phi)\<^sup>2 = 1 - (sin phi)\<^sup>2"
    by (rule cos_squared_eq)
  have y: "d0 * sin (phi - pi / 2) = yd - sin phi * ?k"
    unfolding d cs by (simp add: algebra_simps power2_eq_square [symmetric] one')
  have "(cos phi * ?k = 0 \<and> sin phi * ?k = 0) = (?k = 0)"
  proof
    assume a: "cos phi * ?k = 0 \<and> sin phi * ?k = 0"
    show "?k = 0"
    proof (rule ccontr)
      assume "?k \<noteq> 0"
      with a have "cos phi = 0" "sin phi = 0" by simp_all
      with sin_cos_squared_add [of phi] show False by simp
    qed
  qed simp
  moreover have "(xd * (pt * cos phi) + yd * (pt * sin phi) = 0) = (?k = 0)"
  proof -
    have "xd * (pt * cos phi) + yd * (pt * sin phi) = pt * ?k"
      by (simp add: algebra_simps)
    with pt show ?thesis by simp
  qed
  ultimately show ?thesis unfolding x y by auto
qed

lemma example_run:
  "Process_track idx draws 1 (example_store q (1 / 2), one_bin_module) =
     (case fill_smeared_track idx 1 (example_store q (1 / 2) ! 0)
             (vec_add (mat_vec Identity (draws 0))
                (forward_parameters (example_store q (1 / 2) ! 1) (example_store q (1 / 2) ! 0)))
             Identity (example_store q (1 / 2) ! 1) of
        Inl e \<Rightarrow> Some (Inl e)
      | Inr c \<Rightarrow>
          Some (Inr (example_store q (1 / 2) @ [c],
            one_bin_module\<lparr>fRandomGenerator := 1, fOutputArray := [2]\<rparr>)))"
proof -
  let ?h = "example_store q (1 / 2)"
  have b: "ptbin_of one_bin_module (Pt (Momentum (?h ! 0))) = 1"
    "etabin_of one_bin_module (Eta (Momentum (?h ! 0))) = 1"
    by (simp_all add: ptbin_of_def etabin_of_def one_bin_module_def example_store_def)
  have c: "at_at (fSmearingMatrices one_bin_module) 1 1 = Some Identity"
    "at_at (fCovarianceMatrices one_bin_module) 1 1 = Some Identity"
    by (simp_all add: one_bin_module_def at_at_def)
  have g: "getValidBins one_bin_module (ptbin_of one_bin_module (Pt (Momentum (?h ! 0))))
      (etabin_of one_bin_module (Eta (Momentum (?h ! 0)))) = Some (Inr (1, 1), one_bin_module)"
    unfolding b using c by (intro getValidBins_hit) simp
  have "Process_track idx draws 1 (?h, one_bin_module) =
     (case fill_smeared_track idx 1 (?h ! 0)
             (vec_add (mat_vec Identity (draws (fRandomGenerator one_bin_module)))
                (forward_parameters (?h ! 1) (?h ! 0)))
             Identity (?h ! 1) of
        Inl e \<Rightarrow> Some (Inl e)
      | Inr c \<Rightarrow>
          Some (Inr (?h @ [c],
            one_bin_module\<lparr>fRandomGenerator := Suc (fRandomGenerator one_bin_module),
               fOutputArray := fOutputArray one_bin_module @ [length ?h]\<rparr>)))"
    by (rule Process_track_resolved [where p = 0 and ps = "[]", OF _ _ _ _ _ g c])
       (simp_all add: example_store_def deref_def blank_candidate_def)
  moreover have "fRandomGenerator one_bin_module = 0" "fOutputArray one_bin_module = []"
    "length ?h = 2"
    by (simp_all add: one_bin_module_def example_store_def)
  ultimately show ?thesis by (simp cong: sum.case_cong)
qed


lemma emitted_append:
  "emitted field (Some (Inr (h @ [c], s\<lparr>fOutputArray := out @ [length h]\<rparr>))) = Some (Inr (field c))"
  by (simp add: emitted_def)

lemma example_zero_noise_run:
  "\<exists>c. Process_track idx zero_draws 1 (example_store 1 (1 / 2), one_bin_module) =
       Some (Inr (example_store 1 (1 / 2) @ [c],
         one_bin_module\<lparr>fRandomGenerator := 1, fOutputArray := [] @ [length (example_store 1 (1 / 2))]\<rparr>)) \<and>
     Momentum c = \<lparr>Pt = 50, Eta = 1 / 2, Phi = 0, M = 0\<rparr> \<and> Xd c = 0 \<and> Zd c = 0 \<and> Dxy c = 0 \<and>
     NotFinite c = None"
proof -
  let ?h = "example_store 1 (1 / 2)"
  have z: "vec_add (mat_vec Identity (zero_draws 0)) (forward_parameters (?h ! 1) (?h ! 0)) =
      forward_parameters (?h ! 1) (?h ! 0)"
    by (rule zero_noise) (simp add: zero_draws_def)
  have "Charge (?h ! 0) \<noteq> 0" "0 < Pt (Momentum (?h ! 0))"
    by (simp_all add: example_store_def)
  from fill_zero_noise [OF this, of idx 1 "?h ! 1" Identity "?h ! 1"]
  obtain c where c: "fill_smeared_track idx 1 (?h ! 0) (forward_parameters (?h ! 1) (?h ! 0))
        Identity (?h ! 1) = Inr c"
    "Momentum c = Momentum (?h ! 0)" "Zd c = Zd (?h ! 1)"
    "Dxy c = (Xd (?h ! 1) * Py (Momentum (?h ! 0)) - Yd (?h ! 1) * Px (Momentum (?h ! 0))) /
        Pt (Momentum (?h ! 0))"
    "Xd c = Dxy c * cos (Phi (Momentum (?h ! 0)) - pi / 2)"
    "NotFinite c = None"
    by blast
  have d: "Dxy c = 0"
    unfolding c(4) by (simp add: example_store_def Px_def Py_def blank_candidate_def)
  have "Process_track idx zero_draws 1 (?h, one_bin_module) =
       Some (Inr (?h @ [c], one_bin_module\<lparr>fRandomGenerator := 1, fOutputArray := [] @ [length ?h]\<rparr>))"
    unfolding example_run z c(1) by (simp add: example_store_def)
  moreover have "Momentum c = \<lparr>Pt = 50, Eta = 1 / 2, Phi = 0, M = 0\<rparr>" "Zd c = 0"
    unfolding c(2,3) by (simp_all add: example_store_def blank_candidate_def)
  moreover have "Xd c = 0"
    unfolding c(5) d by simp
  ultimately show ?thesis using d c(6) by blast
qed

text \<open>
  C2, as the code has it. For a track whose generated particle has a charge
  other than 0 and a positive pt, and whose bins resolve to a cached pair, a
  pass with a zero draw adds a track that has the momentum of the generated
  particle and the Zd of the input track; its Dxy is the d0 of the forward
  transform, and its Xd and Yd are that d0 times the cosine and the sine of
  phi - pi/2. They are the Xd and Yd of the input exactly when the perigee point
  is perpendicular to the transverse momentum.
\<close>

theorem zero_noise_round_trip:
  "deref h track = Some trk \<and> fArray trk = p # ps \<and> deref h p = Some particle \<and>
     fArray particle = [] \<Longrightarrow>
   Charge particle \<noteq> 0 \<Longrightarrow> 0 < Pt (Momentum particle) \<Longrightarrow>
   getValidBins s (ptbin_of s (Pt (Momentum particle))) (etabin_of s (Eta (Momentum particle))) =
     Some (Inr (pb, eb), s1) \<Longrightarrow>
   at_at (fSmearingMatrices s1) pb eb = Some L \<Longrightarrow>
   at_at (fCovarianceMatrices s1) pb eb = Some cov \<Longrightarrow>
   \<forall>i<5. draws (fRandomGenerator s) i = 0 \<Longrightarrow>
   (\<exists>c. Process_track idx draws track (h, s) =
          Some (Inr (h @ [c], s1\<lparr>fRandomGenerator := Suc (fRandomGenerator s1),
                                fOutputArray := fOutputArray s1 @ [length h]\<rparr>)) \<and>
      Momentum c = Momentum particle \<and>
      Zd c = Zd trk \<and>
      Dxy c = (Xd trk * Py (Momentum particle) - Yd trk * Px (Momentum particle)) / Pt (Momentum particle) \<and>
      Xd c = Dxy c * cos (Phi (Momentum particle) - pi / 2) \<and>
      Yd c = Dxy c * sin (Phi (Momentum particle) - pi / 2) \<and>
      ((Xd c = Xd trk \<and> Yd c = Yd trk) =
         (Xd trk * Px (Momentum particle) + Yd trk * Py (Momentum particle) = 0)))"
proof -
  assume v: "deref h track = Some trk \<and> fArray trk = p # ps \<and> deref h p = Some particle \<and>
     fArray particle = []"
    and q: "Charge particle \<noteq> 0" and pt: "0 < Pt (Momentum particle)"
    and g: "getValidBins s (ptbin_of s (Pt (Momentum particle))) (etabin_of s (Eta (Momentum particle))) =
     Some (Inr (pb, eb), s1)"
    and l: "at_at (fSmearingMatrices s1) pb eb = Some L"
    and k: "at_at (fCovarianceMatrices s1) pb eb = Some cov"
    and r: "\<forall>i<5. draws (fRandomGenerator s) i = 0"
  have "fRandomGenerator s1 = fRandomGenerator s"
    using getValidBins_frame [OF g] by simp
  with r have z: "vec_add (mat_vec L (draws (fRandomGenerator s1))) (forward_parameters trk particle) =
      forward_parameters trk particle"
    by (intro zero_noise) simp
  from fill_zero_noise [OF q pt, of idx track trk cov trk]
  obtain c where c: "fill_smeared_track idx track particle (forward_parameters trk particle) cov trk = Inr c"
    "Momentum c = Momentum particle" "Zd c = Zd trk"
    "Dxy c = (Xd trk * Py (Momentum particle) - Yd trk * Px (Momentum particle)) / Pt (Momentum particle)"
    "Xd c = Dxy c * cos (Phi (Momentum particle) - pi / 2)"
    "Yd c = Dxy c * sin (Phi (Momentum particle) - pi / 2)"
    by blast
  have run: "Process_track idx draws track (h, s) =
          Some (Inr (h @ [c], s1\<lparr>fRandomGenerator := Suc (fRandomGenerator s1),
                                fOutputArray := fOutputArray s1 @ [length h]\<rparr>))"
    using v pt Process_track_resolved [of h track trk p ps particle s pb eb s1 L cov idx draws, OF _ _ _ _ _ g l k]
    unfolding z c(1) by simp
  have "(Xd c = Xd trk \<and> Yd c = Yd trk) =
         (Xd trk * Px (Momentum particle) + Yd trk * Py (Momentum particle) = 0)"
    unfolding c(5,6) c(4) Px_def Py_def
    by (rule perigee_consistency [OF pt])
  with run c show ?thesis by blast
qed

theorem zero_noise_round_trip_witness:
  "emitted Momentum (Process_track triangle_idx zero_draws 1 (example_store 1 (1 / 2), one_bin_module)) =
     Some (Inr \<lparr>Pt = 50, Eta = 1 / 2, Phi = 0, M = 0\<rparr>) \<and>
   Momentum (example_store 1 (1 / 2) ! 0) = \<lparr>Pt = 50, Eta = 1 / 2, Phi = 0, M = 0\<rparr> \<and>
   Charge (example_store 1 (1 / 2) ! 0) = 1"
proof -
  let ?h = "example_store 1 (1 / 2)"
  have b: "ptbin_of one_bin_module (Pt (Momentum (?h ! 0))) = 1"
    "etabin_of one_bin_module (Eta (Momentum (?h ! 0))) = 1"
    by (simp_all add: ptbin_of_def etabin_of_def one_bin_module_def example_store_def)
  have c: "at_at (fSmearingMatrices one_bin_module) 1 1 = Some Identity"
    "at_at (fCovarianceMatrices one_bin_module) 1 1 = Some Identity"
    by (simp_all add: one_bin_module_def at_at_def)
  have g: "getValidBins one_bin_module (ptbin_of one_bin_module (Pt (Momentum (?h ! 0))))
      (etabin_of one_bin_module (Eta (Momentum (?h ! 0)))) = Some (Inr (1, 1), one_bin_module)"
    unfolding b using c by (intro getValidBins_hit) simp
  have v: "deref ?h 1 = Some (?h ! 1) \<and> fArray (?h ! 1) = 0 # [] \<and> deref ?h 0 = Some (?h ! 0) \<and>
     fArray (?h ! 0) = []"
    by (simp add: example_store_def deref_def blank_candidate_def)
  have m: "Momentum (?h ! 0) = \<lparr>Pt = 50, Eta = 1 / 2, Phi = 0, M = 0\<rparr>" "Charge (?h ! 0) = 1"
    by (simp_all add: example_store_def)
  have z: "\<forall>i<5. zero_draws (fRandomGenerator one_bin_module) i = 0"
    by (simp add: zero_draws_def)
  have q: "Charge (?h ! 0) \<noteq> 0" "0 < Pt (Momentum (?h ! 0))"
    using m by simp_all
  from zero_noise_round_trip [where draws = zero_draws and idx = triangle_idx and s = one_bin_module
      and h = ?h and track = 1 and particle = "?h ! 0", OF v q g c z]
  obtain c where "Process_track triangle_idx zero_draws 1 (?h, one_bin_module) =
          Some (Inr (?h @ [c], one_bin_module\<lparr>fRandomGenerator := Suc (fRandomGenerator one_bin_module),
                                fOutputArray := fOutputArray one_bin_module @ [length ?h]\<rparr>))"
    "Momentum c = Momentum (?h ! 0)"
    using m by auto
  then show ?thesis using m by (simp add: emitted_def)
qed

text \<open>
  The claim C2 fails: with a zero draw, the track with perigee point (1, 0, 0)
  of a particle of charge 1, pt 50 and phi 0 comes out with Xd 0.
\<close>

theorem zero_noise_changes_Xd:
  "emitted Xd (Process_track triangle_idx zero_draws 1 (example_store 1 (1 / 2), one_bin_module)) =
     Some (Inr 0) \<and>
   Xd (example_store 1 (1 / 2) ! 1) = 1 \<and>
   Charge (example_store 1 (1 / 2) ! 0) = 1 \<and>
   Pt (Momentum (example_store 1 (1 / 2) ! 0)) = 50 \<and>
   map (zero_draws (fRandomGenerator one_bin_module)) [0, 1, 2, 3, 4] = [0, 0, 0, 0, 0]"
proof -
  from example_zero_noise_run [of triangle_idx]
  obtain c where "Process_track triangle_idx zero_draws 1 (example_store 1 (1 / 2), one_bin_module) =
       Some (Inr (example_store 1 (1 / 2) @ [c],
         one_bin_module\<lparr>fRandomGenerator := 1, fOutputArray := [] @ [length (example_store 1 (1 / 2))]\<rparr>))"
    "Xd c = 0"
    by blast
  then have "emitted Xd (Process_track triangle_idx zero_draws 1 (example_store 1 (1 / 2), one_bin_module)) =
     Some (Inr 0)"
    by (simp add: emitted_def)
  then show ?thesis
    by (simp add: example_store_def zero_draws_def)
qed

lemma deref_Some: "deref h p = Some c \<Longrightarrow> p < length h \<and> c = h ! p"
  by (auto simp: deref_def split: if_splits)

lemma Process_frame:
  "Process idx draws fInputArray hs = Some (Inr hs') \<Longrightarrow>
     take (length (fst hs)) (fst hs') = fst hs \<and>
     length (fst hs') = length (fst hs) + length fInputArray"
proof (induction fInputArray arbitrary: hs)
  case Nil
  then show ?case by simp
next
  case (Cons track fInputArray)
  from Cons.prems obtain hs1 where
    one: "Process_track idx draws track hs = Some (Inr hs1)"
    and rest: "Process idx draws fInputArray hs1 = Some (Inr hs')"
    by (auto split: option.splits sum.splits)
  from one have "Process_track idx draws track (fst hs, snd hs) = Some (Inr (fst hs1, snd hs1))"
    by simp
  from Process_track_Inr [OF this] obtain c where h1: "fst hs1 = fst hs @ [c]"
    by blast
  from Cons.IH [OF rest] have
    t: "take (length (fst hs1)) (fst hs') = fst hs1"
    and l: "length (fst hs') = length (fst hs1) + length fInputArray"
    by simp_all
  have "take (length (fst hs)) (fst hs') = take (length (fst hs)) (take (length (fst hs1)) (fst hs'))"
    by (simp add: h1 min_def)
  also have "\<dots> = fst hs"
    unfolding t by (simp add: h1)
  finally show ?case using l by (simp add: h1)
qed

text \<open>
  C7. The five parameters before smearing are d0 = (xd*py - yd*px)/pt with
  px = pt*cos(phi) and py = pt*sin(phi), z0 = zd, phi, theta = 2*atan(exp(-eta))
  and qoverp = q/(pt*cosh(eta)); for the track of charge 1, pt 50, eta 0, phi 0
  and perigee point (0.001, 0, 0) the d0 is 0. They are the vector to which a
  pass of the loop adds the smearing.
\<close>

theorem forward_parameter_transform:
  "forward_parameters trk particle D0 =
     (Xd trk * Py (Momentum particle) - Yd trk * Px (Momentum particle)) / Pt (Momentum particle) \<and>
   Px (Momentum particle) = Pt (Momentum particle) * cos (Phi (Momentum particle)) \<and>
   Py (Momentum particle) = Pt (Momentum particle) * sin (Phi (Momentum particle)) \<and>
   forward_parameters trk particle Z0 = Zd trk \<and>
   forward_parameters trk particle PHI = Phi (Momentum particle) \<and>
   forward_parameters trk particle THETA = 2 * arctan (exp (- Eta (Momentum particle))) \<and>
   forward_parameters trk particle QOVERP =
     real_of_int (Charge particle) / (Pt (Momentum particle) * cosh (Eta (Momentum particle))) \<and>
   (0 < Pt (Momentum particle) \<longrightarrow>
      forward_parameters trk particle D0 =
        Xd trk * sin (Phi (Momentum particle)) - Yd trk * cos (Phi (Momentum particle))) \<and>
   forward_parameters (blank_candidate\<lparr>Xd := 0.001, Yd := 0, Zd := 0\<rparr>)
     (blank_candidate\<lparr>Momentum := \<lparr>Pt = 50, Eta = 0, Phi = 0, M = m\<rparr>, Charge := 1\<rparr>) D0 = 0 \<and>
   (Process_track idx draws track (h, s) = Some (Inr (h', s')) \<and> deref h track = Some trk \<and>
    fArray trk = p # ps \<and> deref h p = Some particle \<longrightarrow>
      (\<exists>pb eb s1 L.
         getValidBins s (ptbin_of s (Pt (Momentum particle))) (etabin_of s (Eta (Momentum particle))) =
           Some (Inr (pb, eb), s1) \<and>
         at_at (fSmearingMatrices s1) pb eb = Some L \<and>
         (\<forall>i<5. trkPar (last h') i =
            mat_vec L (draws (fRandomGenerator s)) i + forward_parameters trk particle i)))"
proof (intro conjI impI)
  note fe = forward_parameters_entries [of trk particle]
  show "forward_parameters trk particle D0 =
     (Xd trk * Py (Momentum particle) - Yd trk * Px (Momentum particle)) / Pt (Momentum particle)"
    "forward_parameters trk particle Z0 = Zd trk"
    "forward_parameters trk particle PHI = Phi (Momentum particle)"
    "forward_parameters trk particle THETA = 2 * arctan (exp (- Eta (Momentum particle)))"
    "forward_parameters trk particle QOVERP =
     real_of_int (Charge particle) / (Pt (Momentum particle) * cosh (Eta (Momentum particle)))"
    by (rule fe)+
  show "Px (Momentum particle) = Pt (Momentum particle) * cos (Phi (Momentum particle))"
    "Py (Momentum particle) = Pt (Momentum particle) * sin (Phi (Momentum particle))"
    by (simp_all add: Px_def Py_def)
  show "forward_parameters trk particle D0 =
        Xd trk * sin (Phi (Momentum particle)) - Yd trk * cos (Phi (Momentum particle))"
    if "0 < Pt (Momentum particle)"
    using that by (simp add: fe Px_def Py_def field_simps)
  show "forward_parameters (blank_candidate\<lparr>Xd := 0.001, Yd := 0, Zd := 0\<rparr>)
     (blank_candidate\<lparr>Momentum := \<lparr>Pt = 50, Eta = 0, Phi = 0, M = m\<rparr>, Charge := 1\<rparr>) D0 = 0"
    by (simp add: forward_parameters_entries Px_def Py_def)
next
  assume a: "Process_track idx draws track (h, s) = Some (Inr (h', s')) \<and> deref h track = Some trk \<and>
    fArray trk = p # ps \<and> deref h p = Some particle"
  from Process_track_Inr [of idx draws track h s h' s'] a
  obtain pb eb s1 L cov c where
    g: "getValidBins s (ptbin_of s (Pt (Momentum particle))) (etabin_of s (Eta (Momentum particle))) =
      Some (Inr (pb, eb), s1)"
    and l: "at_at (fSmearingMatrices s1) pb eb = Some L"
    and f: "fill_smeared_track idx track particle
             (vec_add (mat_vec L (draws (fRandomGenerator s1))) (forward_parameters trk particle))
             cov trk = Inr c"
    and h': "h' = h @ [c]"
    by auto
  have r: "fRandomGenerator s1 = fRandomGenerator s"
    using getValidBins_frame [OF g] by simp
  have "\<forall>i<5. trkPar (last h') i =
            mat_vec L (draws (fRandomGenerator s)) i + forward_parameters trk particle i"
    unfolding h' using fill_smeared_track_fields(8) [OF f] by (simp add: r vec_add_def)
  with g l show "\<exists>pb eb s1 L.
         getValidBins s (ptbin_of s (Pt (Momentum particle))) (etabin_of s (Eta (Momentum particle))) =
           Some (Inr (pb, eb), s1) \<and>
         at_at (fSmearingMatrices s1) pb eb = Some L \<and>
         (\<forall>i<5. trkPar (last h') i =
            mat_vec L (draws (fRandomGenerator s)) i + forward_parameters trk particle i)"
    by blast
qed

theorem forward_parameter_transform_witness:
  "forward_parameters (example_store 1 (1 / 2) ! 1) (example_store 1 (1 / 2) ! 0) D0 = 0 \<and>
   0 < Pt (Momentum (example_store 1 (1 / 2) ! 0)) \<and>
   emitted (\<lambda>c. trkPar c 1) (Process_track triangle_idx zero_draws 1 (example_store 1 (1 / 2), one_bin_module)) =
     Some (Inr 0)"
proof -
  let ?h = "example_store 1 (1 / 2)"
  have pt: "0 < Pt (Momentum (?h ! 0))"
    by (simp add: example_store_def)
  have d: "forward_parameters (?h ! 1) (?h ! 0) D0 = 0"
    using forward_parameter_transform [where trk = "?h ! 1" and particle = "?h ! 0",
        THEN conjunct2, THEN conjunct2, THEN conjunct2, THEN conjunct2, THEN conjunct2,
        THEN conjunct2, THEN conjunct2, THEN conjunct1] pt
    by (simp add: example_store_def blank_candidate_def)
  from example_zero_noise_run [of triangle_idx]
  obtain c where run: "Process_track triangle_idx zero_draws 1 (?h, one_bin_module) =
       Some (Inr (?h @ [c],
         one_bin_module\<lparr>fRandomGenerator := 1, fOutputArray := [] @ [length ?h]\<rparr>))"
    by blast
  have v: "deref ?h 1 = Some (?h ! 1) \<and> fArray (?h ! 1) = 0 # [] \<and> deref ?h 0 = Some (?h ! 0)"
    by (simp add: example_store_def deref_def blank_candidate_def)
  from forward_parameter_transform [where trk = "?h ! 1" and particle = "?h ! 0" and h = ?h
      and track = 1 and p = 0 and ps = "[]" and idx = triangle_idx and draws = zero_draws
      and s = one_bin_module and h' = "?h @ [c]"
      and s' = "one_bin_module\<lparr>fRandomGenerator := 1, fOutputArray := [] @ [length ?h]\<rparr>",
      THEN conjunct2, THEN conjunct2, THEN conjunct2, THEN conjunct2, THEN conjunct2,
      THEN conjunct2, THEN conjunct2, THEN conjunct2, THEN conjunct2] run v
  obtain L where "\<forall>i<5. trkPar (last (?h @ [c])) i =
            mat_vec L (zero_draws (fRandomGenerator one_bin_module)) i
              + forward_parameters (?h ! 1) (?h ! 0) i"
    by blast
  then have "trkPar c 1 = mat_vec L (zero_draws (fRandomGenerator one_bin_module)) 1
      + forward_parameters (?h ! 1) (?h ! 0) Z0"
    by (simp add: Z0_def)
  then have "trkPar c 1 = 0"
    by (simp add: forward_parameters_entries mat_vec_def zero_draws_def sum5_def example_store_def
        blank_candidate_def)
  with run have "emitted (\<lambda>c. trkPar c 1)
      (Process_track triangle_idx zero_draws 1 (?h, one_bin_module)) = Some (Inr 0)"
    by (simp add: emitted_def)
  with d pt show ?thesis by simp
qed


lemma example_qoverp_noise:
  "vec_add (mat_vec Identity (qoverp_draws n)) v QOVERP = 1 + v QOVERP"
  "vec_add (mat_vec Identity (qoverp_draws n)) v THETA = v THETA"
  by (simp_all add: vec_add_def mat_vec_def sum5_def Identity_def qoverp_draws_def QOVERP_def THETA_def)

lemma example_neutral_run:
  "\<exists>c. Process_track idx qoverp_draws 1 (example_store 0 (1 / 2), one_bin_module) =
       Some (Inr (example_store 0 (1 / 2) @ [c],
         one_bin_module\<lparr>fRandomGenerator := 1, fOutputArray := [] @ [length (example_store 0 (1 / 2))]\<rparr>)) \<and>
     Pt (Momentum c) = 0 \<and> trkPar c QOVERP = 1 \<and> NotFinite c = None"
proof -
  let ?h = "example_store 0 (1 / 2)"
  let ?sm = "vec_add (mat_vec Identity (qoverp_draws 0)) (forward_parameters (?h ! 1) (?h ! 0))"
  have q: "Charge (?h ! 0) = 0" and e: "Eta (Momentum (?h ! 0)) = 1 / 2"
    by (simp_all add: example_store_def)
  have sq: "?sm QOVERP = 1"
    unfolding example_qoverp_noise forward_parameters_entries q by simp
  have st: "?sm THETA / 2 = arctan (exp (- (1 / 2)))"
    unfolding example_qoverp_noise forward_parameters_entries e by simp
  have ch: "cosh (1 / 2 :: real) \<noteq> 0"
    using cosh_real_pos [of "1 / 2"] by simp
  have sp: "divide_double (real_of_int (Charge (?h ! 0))) (?sm QOVERP * cosh (Eta (Momentum (?h ! 0)))) =
      Finite 0"
    unfolding sq e q using ch by (simp add: divide_double_def)
  have se: "minus_double (log_double (tan_double (?sm THETA / 2))) = Finite (1 / 2)"
    unfolding st by (rule eta_of_theta)
  have "\<exists>c. fill_smeared_track idx 1 (?h ! 0) ?sm Identity (?h ! 1) = Inr c"
  proof (rule fill_smeared_track_returns)
    show "ge_zero (divide_double (real_of_int (Charge (?h ! 0)))
        (?sm QOVERP * cosh (Eta (Momentum (?h ! 0)))))"
      unfolding sp by simp
  qed
  then obtain c where r: "fill_smeared_track idx 1 (?h ! 0) ?sm Identity (?h ! 1) = Inr c" ..
  note f = fill_smeared_track_fields [OF r]
  have "Process_track idx qoverp_draws 1 (?h, one_bin_module) =
       Some (Inr (?h @ [c], one_bin_module\<lparr>fRandomGenerator := 1, fOutputArray := [] @ [length ?h]\<rparr>))"
    unfolding example_run r by (simp add: example_store_def)
  moreover have "Pt (Momentum c) = 0"
    unfolding f(3) sp by (simp add: SetPtEtaPhiM_def)
  moreover have "trkPar c QOVERP = 1"
    unfolding f(8) using sq by (simp add: QOVERP_def)
  moreover have "NotFinite c = None"
    unfolding f(2) sp se by simp
  ultimately show ?thesis by blast
qed

lemma example_negative_run:
  "forward_parameters (example_store (-1) (1 / 2) ! 1) (example_store (-1) (1 / 2) ! 0) QOVERP
      + mat_vec Identity (qoverp_draws 0) QOVERP > 0"
proof -
  have "1 \<le> cosh (1 / 2 :: real)"
    by (rule cosh_real_ge_1)
  then have "1 < 50 * cosh (1 / 2 :: real)"
    by simp
  then have "1 / (50 * cosh (1 / 2 :: real)) < 1"
    by simp
  moreover have "forward_parameters (example_store (-1) (1 / 2) ! 1) (example_store (-1) (1 / 2) ! 0) QOVERP =
      - (1 / (50 * cosh (1 / 2)))"
    unfolding forward_parameters_entries by (simp add: example_store_def)
  moreover have "mat_vec Identity (qoverp_draws 0) QOVERP = 1"
    by (simp add: mat_vec_def sum5_def Identity_def qoverp_draws_def QOVERP_def)
  ultimately show ?thesis by simp
qed

lemma example_cancelling_run:
  "forward_parameters (example_store 1 (1 / 2) ! 1) (example_store 1 (1 / 2) ! 0) QOVERP
      + mat_vec Identity (cancelling_draws 0) QOVERP = 0"
proof -
  have "forward_parameters (example_store 1 (1 / 2) ! 1) (example_store 1 (1 / 2) ! 0) QOVERP =
      1 / (50 * cosh (1 / 2))"
    unfolding forward_parameters_entries by (simp add: example_store_def)
  moreover have "mat_vec Identity (cancelling_draws 0) QOVERP = - (1 / (50 * cosh (1 / 2)))"
    by (simp add: mat_vec_def sum5_def Identity_def cancelling_draws_def QOVERP_def)
  ultimately show ?thesis by simp
qed

lemma example_resolved:
  "deref (example_store q (1 / 2)) 1 = Some (example_store q (1 / 2) ! 1) \<and>
   fArray (example_store q (1 / 2) ! 1) = 0 # [] \<and>
   deref (example_store q (1 / 2)) 0 = Some (example_store q (1 / 2) ! 0)"
  "fArray (example_store q (1 / 2) ! 0) = [] \<and> Pt (Momentum (example_store q (1 / 2) ! 0)) \<noteq> 0 \<and>
   getValidBins one_bin_module (ptbin_of one_bin_module (Pt (Momentum (example_store q (1 / 2) ! 0))))
      (etabin_of one_bin_module (Eta (Momentum (example_store q (1 / 2) ! 0)))) =
     Some (Inr (1, 1), one_bin_module) \<and>
   at_at (fSmearingMatrices one_bin_module) 1 1 = Some Identity \<and>
   at_at (fCovarianceMatrices one_bin_module) 1 1 = Some Identity"
proof -
  let ?h = "example_store q (1 / 2)"
  show "deref ?h 1 = Some (?h ! 1) \<and> fArray (?h ! 1) = 0 # [] \<and> deref ?h 0 = Some (?h ! 0)"
    by (simp add: example_store_def deref_def blank_candidate_def)
  have b: "ptbin_of one_bin_module (Pt (Momentum (?h ! 0))) = 1"
    "etabin_of one_bin_module (Eta (Momentum (?h ! 0))) = 1"
    by (simp_all add: ptbin_of_def etabin_of_def one_bin_module_def example_store_def)
  have k: "at_at (fSmearingMatrices one_bin_module) 1 1 = Some Identity"
    "at_at (fCovarianceMatrices one_bin_module) 1 1 = Some Identity"
    by (simp_all add: one_bin_module_def at_at_def)
  have g: "getValidBins one_bin_module (ptbin_of one_bin_module (Pt (Momentum (?h ! 0))))
      (etabin_of one_bin_module (Eta (Momentum (?h ! 0)))) = Some (Inr (1, 1), one_bin_module)"
    unfolding b using k by (intro getValidBins_hit) simp
  have "fArray (?h ! 0) = []" "Pt (Momentum (?h ! 0)) \<noteq> 0"
    by (simp_all add: example_store_def blank_candidate_def)
  with g k show "fArray (?h ! 0) = [] \<and> Pt (Momentum (?h ! 0)) \<noteq> 0 \<and>
   getValidBins one_bin_module (ptbin_of one_bin_module (Pt (Momentum (?h ! 0))))
      (etabin_of one_bin_module (Eta (Momentum (?h ! 0)))) =
     Some (Inr (1, 1), one_bin_module) \<and>
   at_at (fSmearingMatrices one_bin_module) 1 1 = Some Identity \<and>
   at_at (fCovarianceMatrices one_bin_module) 1 1 = Some Identity"
    by simp
qed

text \<open>
  C8, as the code has it. The reconstructed transverse momentum is the double
  quotient of the charge and the product of the smeared qoverp and the
  hyperbolic cosine of the eta of the particle. For a track whose bins resolve
  to a cached pair: when it is negative, minus infinity included, or no number,
  the pass ends in the failed assertion; in every other case, zero and plus
  infinity included, the pass ends with a new track. The new track of a pass
  never has a negative reconstructed transverse momentum, and its transverse
  momentum is the reconstructed one.
\<close>

theorem negative_reconstructed_pt_is_fatal:
  "deref h track = Some trk \<and> fArray trk = p # ps \<and> deref h p = Some particle \<Longrightarrow>
   (Process_track idx draws track (h, s) = Some (Inr (h', s')) \<longrightarrow>
      \<not> is_negative (reconstructed_pt particle (last h')) \<and>
      ge_zero (reconstructed_pt particle (last h')) \<and>
      momentum_pt (last h') = reconstructed_pt particle (last h')) \<and>
   (fArray particle = [] \<and> Pt (Momentum particle) \<noteq> 0 \<and>
    getValidBins s (ptbin_of s (Pt (Momentum particle))) (etabin_of s (Eta (Momentum particle))) =
      Some (Inr (pb, eb), s1) \<and>
    at_at (fSmearingMatrices s1) pb eb = Some L \<and>
    at_at (fCovarianceMatrices s1) pb eb = Some cov \<longrightarrow>
      (if ge_zero (divide_double (real_of_int (Charge particle))
            ((forward_parameters trk particle QOVERP + mat_vec L (draws (fRandomGenerator s)) QOVERP) *
              cosh (Eta (Momentum particle))))
       then \<exists>c. Process_track idx draws track (h, s) =
              Some (Inr (h @ [c], s1\<lparr>fRandomGenerator := Suc (fRandomGenerator s1),
                                    fOutputArray := fOutputArray s1 @ [length h]\<rparr>))
       else Process_track idx draws track (h, s) = Some (Inl assertion_failed)) \<and>
      (is_negative (divide_double (real_of_int (Charge particle))
            ((forward_parameters trk particle QOVERP + mat_vec L (draws (fRandomGenerator s)) QOVERP) *
              cosh (Eta (Momentum particle)))) \<longrightarrow>
       Process_track idx draws track (h, s) = Some (Inl assertion_failed)))"
proof (intro conjI impI)
  assume v: "deref h track = Some trk \<and> fArray trk = p # ps \<and> deref h p = Some particle"
  {
    assume run: "Process_track idx draws track (h, s) = Some (Inr (h', s'))"
    from Process_track_Inr [OF run]
    obtain trk' p' ps' particle' pb' eb' s1 L cov c where
      all: "deref h track = Some trk' \<and> fArray trk' = p' # ps' \<and> deref h p' = Some particle' \<and>
       fArray particle' = [] \<and> Pt (Momentum particle') \<noteq> 0 \<and>
       getValidBins s (ptbin_of s (Pt (Momentum particle'))) (etabin_of s (Eta (Momentum particle'))) =
        Some (Inr (pb', eb'), s1) \<and>
       at_at (fSmearingMatrices s1) pb' eb' = Some L \<and>
       at_at (fCovarianceMatrices s1) pb' eb' = Some cov \<and>
       fill_smeared_track idx track particle'
             (vec_add (mat_vec L (draws (fRandomGenerator s1))) (forward_parameters trk' particle'))
             cov trk' = Inr c \<and>
       h' = h @ [c] \<and>
       s' = s1\<lparr>fRandomGenerator := Suc (fRandomGenerator s1),
               fOutputArray := fOutputArray s1 @ [length h]\<rparr>"
      by (elim exE) (rule that)
    then have a: "deref h track = Some trk'" "fArray trk' = p' # ps'" "deref h p' = Some particle'"
      and f': "fill_smeared_track idx track particle'
             (vec_add (mat_vec L (draws (fRandomGenerator s1))) (forward_parameters trk' particle'))
             cov trk' = Inr c"
      and h': "h' = h @ [c]"
      by simp_all
    from a v have "trk' = trk" "particle' = particle"
      by auto
    with f' have f: "fill_smeared_track idx track particle
             (vec_add (mat_vec L (draws (fRandomGenerator s1))) (forward_parameters trk particle))
             cov trk = Inr c"
      by simp
    let ?sm = "vec_add (mat_vec L (draws (fRandomGenerator s1))) (forward_parameters trk particle)"
    let ?pt = "divide_double (real_of_int (Charge particle)) (?sm QOVERP * cosh (Eta (Momentum particle)))"
    let ?eta = "minus_double (log_double (tan_double (?sm THETA / 2)))"
    note ff = fill_smeared_track_fields [OF f]
    have l: "last h' = c"
      by (simp add: h')
    have q: "trkPar c QOVERP = ?sm QOVERP"
      by (simp add: ff(8) QOVERP_def)
    have r: "reconstructed_pt particle (last h') = ?pt"
      unfolding l reconstructed_pt_def q ..
    show g: "ge_zero (reconstructed_pt particle (last h'))"
      unfolding r by (rule ff(1))
    then show "\<not> is_negative (reconstructed_pt particle (last h'))"
      by (simp add: ge_zero_cases)
    have "momentum_pt c = ?pt"
    proof (cases "is_finite ?pt \<and> is_finite ?eta")
      case True
      then obtain x where x: "?pt = Finite x"
        by (cases ?pt) simp_all
      with ff(1) have "0 \<le> x"
        by simp
      have "NotFinite c = None"
        unfolding ff(2) using True by simp
      moreover have "Pt (Momentum c) = \<bar>finite_part ?pt\<bar>"
        by (simp only: ff(3) SetPtEtaPhiM_def TLorentzVector.select_convs)
      ultimately have "momentum_pt c = Finite \<bar>x\<bar>"
        unfolding momentum_pt_def x by simp
      with \<open>0 \<le> x\<close> show ?thesis
        unfolding x by simp
    next
      case False
      have "NotFinite c = Some (abs_double ?pt, ?eta)"
        unfolding ff(2) using False by simp
      then have "momentum_pt c = abs_double ?pt"
        by (simp add: momentum_pt_def)
      with ff(1) show ?thesis
        by (simp only: abs_double_ge_zero)
    qed
    then show "momentum_pt (last h') = reconstructed_pt particle (last h')"
      unfolding r unfolding l .
  }
  assume n: "fArray particle = [] \<and> Pt (Momentum particle) \<noteq> 0 \<and>
    getValidBins s (ptbin_of s (Pt (Momentum particle))) (etabin_of s (Eta (Momentum particle))) =
      Some (Inr (pb, eb), s1) \<and>
    at_at (fSmearingMatrices s1) pb eb = Some L \<and>
    at_at (fCovarianceMatrices s1) pb eb = Some cov"
  then have g: "getValidBins s (ptbin_of s (Pt (Momentum particle))) (etabin_of s (Eta (Momentum particle))) =
      Some (Inr (pb, eb), s1)"
    by simp
  have r: "fRandomGenerator s1 = fRandomGenerator s"
    using getValidBins_frame [OF g] by simp
  let ?sm = "vec_add (mat_vec L (draws (fRandomGenerator s1))) (forward_parameters trk particle)"
  let ?pt = "divide_double (real_of_int (Charge particle))
            ((forward_parameters trk particle QOVERP + mat_vec L (draws (fRandomGenerator s)) QOVERP) *
              cosh (Eta (Momentum particle)))"
  have q: "?sm QOVERP =
      forward_parameters trk particle QOVERP + mat_vec L (draws (fRandomGenerator s)) QOVERP"
    by (simp add: vec_add_def r)
  note run = Process_track_resolved [of h track trk p ps particle s pb eb s1 L cov idx draws]
  have pass: "\<exists>c. Process_track idx draws track (h, s) =
              Some (Inr (h @ [c], s1\<lparr>fRandomGenerator := Suc (fRandomGenerator s1),
                                    fOutputArray := fOutputArray s1 @ [length h]\<rparr>))"
    if "ge_zero ?pt"
  proof -
    from that have "\<exists>c. fill_smeared_track idx track particle ?sm cov trk = Inr c"
      by (intro fill_smeared_track_returns) (simp add: q)
    then obtain c where "fill_smeared_track idx track particle ?sm cov trk = Inr c" ..
    with v n run show ?thesis by simp
  qed
  have fail: "Process_track idx draws track (h, s) = Some (Inl assertion_failed)"
    if "\<not> ge_zero ?pt"
  proof -
    from that have "fill_smeared_track idx track particle ?sm cov trk = Inl assertion_failed"
      by (intro fill_smeared_track_fails) (simp add: q)
    with v n run show ?thesis by simp
  qed
  from pass fail show "if ge_zero ?pt
       then \<exists>c. Process_track idx draws track (h, s) =
              Some (Inr (h @ [c], s1\<lparr>fRandomGenerator := Suc (fRandomGenerator s1),
                                    fOutputArray := fOutputArray s1 @ [length h]\<rparr>))
       else Process_track idx draws track (h, s) = Some (Inl assertion_failed)"
    by simp
  assume "is_negative ?pt"
  then have "\<not> ge_zero ?pt"
    by (simp add: ge_zero_cases)
  then show "Process_track idx draws track (h, s) = Some (Inl assertion_failed)"
    by (rule fail)
qed

theorem negative_reconstructed_pt_is_fatal_witness:
  "emitted (reconstructed_pt (example_store 1 (1 / 2) ! 0))
     (Process_track triangle_idx zero_draws 1 (example_store 1 (1 / 2), one_bin_module)) =
     Some (Inr (Finite 50)) \<and>
   is_negative (divide_double (real_of_int (-1))
      ((forward_parameters (example_store (-1) (1 / 2) ! 1) (example_store (-1) (1 / 2) ! 0) QOVERP
          + mat_vec Identity (qoverp_draws 0) QOVERP) * cosh (1 / 2))) \<and>
   Process_track triangle_idx qoverp_draws 1 (example_store (-1) (1 / 2), one_bin_module) =
     Some (Inl assertion_failed) \<and>
   divide_double (real_of_int 1)
      ((forward_parameters (example_store 1 (1 / 2) ! 1) (example_store 1 (1 / 2) ! 0) QOVERP
          + mat_vec Identity (cancelling_draws 0) QOVERP) * cosh (1 / 2)) = PlusInfinity \<and>
   map_option isl
     (Process_track triangle_idx cancelling_draws 1 (example_store 1 (1 / 2), one_bin_module)) =
     Some False"
proof -
  let ?h = "example_store 1 (1 / 2)"
  let ?n = "example_store (-1) (1 / 2)"
  note v = example_resolved(1) [of 1]
  from example_zero_noise_run [of triangle_idx]
  obtain c where run: "Process_track triangle_idx zero_draws 1 (?h, one_bin_module) =
       Some (Inr (?h @ [c],
         one_bin_module\<lparr>fRandomGenerator := 1, fOutputArray := [] @ [length ?h]\<rparr>))"
    and m: "Momentum c = \<lparr>Pt = 50, Eta = 1 / 2, Phi = 0, M = 0\<rparr>"
    and nf: "NotFinite c = None"
    by blast
  from negative_reconstructed_pt_is_fatal [where idx = triangle_idx and draws = zero_draws
      and s = one_bin_module and h' = "?h @ [c]"
      and s' = "one_bin_module\<lparr>fRandomGenerator := 1, fOutputArray := [] @ [length ?h]\<rparr>",
      OF v, THEN conjunct1] run
  have t: "ge_zero (reconstructed_pt (?h ! 0) c)" "momentum_pt c = reconstructed_pt (?h ! 0) c"
    by simp_all
  from t(2) m nf have fin: "reconstructed_pt (?h ! 0) c = Finite 50"
    by (simp add: momentum_pt_def)
  with run have first: "emitted (reconstructed_pt (?h ! 0))
     (Process_track triangle_idx zero_draws 1 (?h, one_bin_module)) = Some (Inr (Finite 50))"
    by (simp add: emitted_def)
  have z: "fRandomGenerator one_bin_module = 0"
    by (simp add: one_bin_module_def)
  have ch: "0 < cosh (1 / 2 :: real)"
    by (rule cosh_real_pos)
  have e: "Eta (Momentum (?n ! 0)) = 1 / 2" "Charge (?n ! 0) = -1"
    "Eta (Momentum (?h ! 0)) = 1 / 2" "Charge (?h ! 0) = 1"
    by (simp_all add: example_store_def)
  have neg: "is_negative (divide_double (real_of_int (-1))
      ((forward_parameters (?n ! 1) (?n ! 0) QOVERP + mat_vec Identity (qoverp_draws 0) QOVERP) *
        cosh (1 / 2)))"
    using example_negative_run ch by (simp add: divide_double_def divide_neg_pos)
  have second: "Process_track triangle_idx qoverp_draws 1 (?n, one_bin_module) = Some (Inl assertion_failed)"
    using negative_reconstructed_pt_is_fatal [where idx = triangle_idx and draws = qoverp_draws
      and s = one_bin_module and pb = 1 and eb = 1 and ?s1.0 = one_bin_module and L = Identity
      and cov = Identity, OF example_resolved(1) [of "-1"], THEN conjunct2, THEN mp,
      OF example_resolved(2) [of "-1"], THEN conjunct2] neg
    unfolding z e by simp
  have inf: "divide_double (real_of_int 1)
      ((forward_parameters (?h ! 1) (?h ! 0) QOVERP + mat_vec Identity (cancelling_draws 0) QOVERP) *
        cosh (1 / 2)) = PlusInfinity"
    unfolding example_cancelling_run by (simp add: divide_double_def)
  have "\<exists>c. Process_track triangle_idx cancelling_draws 1 (?h, one_bin_module) =
        Some (Inr (?h @ [c], one_bin_module\<lparr>fRandomGenerator := Suc (fRandomGenerator one_bin_module),
                                    fOutputArray := fOutputArray one_bin_module @ [length ?h]\<rparr>))"
    using negative_reconstructed_pt_is_fatal [where idx = triangle_idx and draws = cancelling_draws
      and s = one_bin_module and pb = 1 and eb = 1 and ?s1.0 = one_bin_module and L = Identity
      and cov = Identity, OF example_resolved(1) [of 1], THEN conjunct2, THEN mp,
      OF example_resolved(2) [of 1], THEN conjunct1] inf
    unfolding z e by simp
  then have third: "map_option isl
     (Process_track triangle_idx cancelling_draws 1 (?h, one_bin_module)) = Some False"
    by auto
  from first neg second inf third show ?thesis by simp
qed

text \<open>
  The claim C8 fails for a reconstructed pt of zero: a particle without charge
  whose smeared qoverp is 1 has the reconstructed pt 0, and the pass ends with
  a new track of pt 0.
\<close>

theorem zero_reconstructed_pt_is_emitted:
  "emitted (reconstructed_pt (example_store 0 (1 / 2) ! 0))
     (Process_track triangle_idx qoverp_draws 1 (example_store 0 (1 / 2), one_bin_module)) =
     Some (Inr (Finite 0)) \<and>
   emitted momentum_pt
     (Process_track triangle_idx qoverp_draws 1 (example_store 0 (1 / 2), one_bin_module)) =
     Some (Inr (Finite 0)) \<and>
   emitted (Pt \<circ> Momentum)
     (Process_track triangle_idx qoverp_draws 1 (example_store 0 (1 / 2), one_bin_module)) =
     Some (Inr 0) \<and>
   Charge (example_store 0 (1 / 2) ! 0) = 0"
proof -
  from example_neutral_run [of triangle_idx]
  obtain c where "Process_track triangle_idx qoverp_draws 1 (example_store 0 (1 / 2), one_bin_module) =
       Some (Inr (example_store 0 (1 / 2) @ [c],
         one_bin_module\<lparr>fRandomGenerator := 1, fOutputArray := [] @ [length (example_store 0 (1 / 2))]\<rparr>))"
    "Pt (Momentum c) = 0" "trkPar c QOVERP = 1" "NotFinite c = None"
    by blast
  moreover have "Charge (example_store 0 (1 / 2) ! 0) = 0"
    by (simp add: example_store_def)
  moreover have "cosh (1 / 2 :: real) \<noteq> 0"
    using cosh_real_pos [of "1 / 2"] by simp
  ultimately show ?thesis
    by (simp add: emitted_def reconstructed_pt_def momentum_pt_def divide_double_def example_store_def)
qed

text \<open>
  C9. A pass of the loop that ends with a new track leaves every candidate of
  the store as it was, the input track among them: the new track is a further
  object of the store, it is the one added to the output array, and the smeared
  parameters, the covariance of the resolved bin and the link to the input
  track are in it. The same holds for the whole loop over the input array.
\<close>

theorem input_track_not_mutated:
  "Process_track idx draws track (h, s) = Some (Inr (h', s')) \<Longrightarrow>
   track < length h \<and> length h' = Suc (length h) \<and> take (length h) h' = h \<and>
   h' ! track = h ! track \<and>
   fOutputArray s' = fOutputArray s @ [length h] \<and> length h \<noteq> track \<and>
   fArray (last h') = [track] \<and>
   (\<exists>particle pb eb s1 L cov.
      deref h (hd (fArray (h ! track))) = Some particle \<and>
      getValidBins s (ptbin_of s (Pt (Momentum particle))) (etabin_of s (Eta (Momentum particle))) =
        Some (Inr (pb, eb), s1) \<and>
      at_at (fSmearingMatrices s1) pb eb = Some L \<and>
      at_at (fCovarianceMatrices s) pb eb = Some cov \<and>
      (\<forall>i<5. trkPar (last h') i =
         mat_vec L (draws (fRandomGenerator s)) i + forward_parameters (h ! track) particle i) \<and>
      trkCov (last h') = set_covariance idx (trkCov (h ! track)) cov) \<and>
   (\<forall>fInputArray h2 s2. Process idx draws fInputArray (h, s) = Some (Inr (h2, s2)) \<longrightarrow>
      take (length h) h2 = h \<and> length h2 = length h + length fInputArray)"
proof -
  assume run: "Process_track idx draws track (h, s) = Some (Inr (h', s'))"
  from Process_track_Inr [OF run]
  obtain trk p ps particle pb eb s1 L cov c where
    all: "deref h track = Some trk \<and> fArray trk = p # ps \<and> deref h p = Some particle \<and>
       fArray particle = [] \<and> Pt (Momentum particle) \<noteq> 0 \<and>
       getValidBins s (ptbin_of s (Pt (Momentum particle))) (etabin_of s (Eta (Momentum particle))) =
        Some (Inr (pb, eb), s1) \<and>
       at_at (fSmearingMatrices s1) pb eb = Some L \<and>
       at_at (fCovarianceMatrices s1) pb eb = Some cov \<and>
       fill_smeared_track idx track particle
             (vec_add (mat_vec L (draws (fRandomGenerator s1))) (forward_parameters trk particle))
             cov trk = Inr c \<and>
       h' = h @ [c] \<and>
       s' = s1\<lparr>fRandomGenerator := Suc (fRandomGenerator s1),
               fOutputArray := fOutputArray s1 @ [length h]\<rparr>"
    by (elim exE) (rule that)
  then have g: "getValidBins s (ptbin_of s (Pt (Momentum particle))) (etabin_of s (Eta (Momentum particle))) =
        Some (Inr (pb, eb), s1)"
    and f: "fill_smeared_track idx track particle
             (vec_add (mat_vec L (draws (fRandomGenerator s1))) (forward_parameters trk particle))
             cov trk = Inr c"
    and h': "h' = h @ [c]"
    by simp_all
  note fr = getValidBins_frame [OF g]
  note ff = fill_smeared_track_fields [OF f]
  from all have t: "track < length h" "trk = h ! track"
    using deref_Some [of h track trk] by simp_all
  have hd: "hd (fArray (h ! track)) = p"
    using all t by simp
  have "track < length h \<and> length h' = Suc (length h) \<and> take (length h) h' = h \<and>
      h' ! track = h ! track \<and> length h \<noteq> track \<and> fArray (last h') = [track]"
    using t by (simp add: h' ff(10) nth_append)
  moreover have "fOutputArray s' = fOutputArray s @ [length h]"
    using all fr by simp
  moreover have "\<forall>i<5. trkPar (last h') i =
         mat_vec L (draws (fRandomGenerator s)) i + forward_parameters (h ! track) particle i"
    using fr by (simp add: h' ff(8) vec_add_def t)
  moreover have "trkCov (last h') = set_covariance idx (trkCov (h ! track)) cov"
    by (simp add: h' ff(9) t)
  moreover have "at_at (fCovarianceMatrices s) pb eb = Some cov"
    using all fr by simp
  moreover have "\<forall>fInputArray h2 s2. Process idx draws fInputArray (h, s) = Some (Inr (h2, s2)) \<longrightarrow>
      take (length h) h2 = h \<and> length h2 = length h + length fInputArray"
    using Process_frame [of idx draws _ "(h, s)"] by auto
  ultimately show ?thesis
    using all g hd by blast
qed

theorem input_track_not_mutated_witness:
  "map_option (map_sum id (\<lambda>hs. take 2 (fst hs)))
     (Process_track triangle_idx zero_draws 1 (example_store 1 (1 / 2), one_bin_module)) =
     Some (Inr (example_store 1 (1 / 2))) \<and>
   map_option (map_sum id (\<lambda>hs. fOutputArray (snd hs)))
     (Process_track triangle_idx zero_draws 1 (example_store 1 (1 / 2), one_bin_module)) =
     Some (Inr [2])"
proof -
  let ?h = "example_store 1 (1 / 2)"
  from example_zero_noise_run [of triangle_idx]
  obtain c where run: "Process_track triangle_idx zero_draws 1 (?h, one_bin_module) =
       Some (Inr (?h @ [c],
         one_bin_module\<lparr>fRandomGenerator := 1, fOutputArray := [] @ [length ?h]\<rparr>))"
    by blast
  have l: "length ?h = 2" "fOutputArray one_bin_module = []"
    by (simp_all add: example_store_def one_bin_module_def)
  from input_track_not_mutated [OF run]
  have "take (length ?h) (?h @ [c]) = ?h"
    "fOutputArray (one_bin_module\<lparr>fRandomGenerator := 1, fOutputArray := [] @ [length ?h]\<rparr>) =
       fOutputArray one_bin_module @ [length ?h]"
    by blast+
  with run l show ?thesis by simp
qed

end
